theory Spec2Isabelle
  imports Main
begin

section \<open>The tool-augmented generation loop of \<open>backend/ai_generator.py\<close>\<close>

text \<open>
  A shallow embedding of \<open>AIGenerator.generate_response\<close>. The inference client
  (\<open>self.client.messages.create\<close>) and the tool manager (\<open>tool_manager.execute_tool\<close>)
  are external and stateful: they are parameters of the model, functions of an explicit
  world \<open>'w\<close> that they may change, returning either a raised exception (\<open>Inl\<close>) or a
  value (\<open>Inr\<close>). Every call to either of them is recorded, in order, in a trace, with the
  arguments as they were at the time of the call and the outcome.
\<close>

subsection \<open>Data\<close>

text \<open>
  The exceptions the function can meet: one raised by the client or by a tool, carrying
  its message; the \<open>IndexError\<close> of \<open>content[0]\<close> on an empty list; the
  \<open>AttributeError\<close> of \<open>.text\<close> on a block that has no such field.
  \<open>str_exn\<close> is Python's \<open>str(e)\<close>.
\<close>

datatype exn = Exception string | IndexError | AttributeError

fun str_exn :: "exn \<Rightarrow> string" where
  "str_exn (Exception msg) = msg"
| "str_exn IndexError = ''list index out of range''"
| "str_exn AttributeError =
     [CHR 0x27] @ ''ToolUseBlock'' @ [CHR 0x27] @ '' object has no attribute '' @
     [CHR 0x27] @ ''text'' @ [CHR 0x27]"

type_synonym tool_input = "(string \<times> string) list"

text \<open>
  A content block: \<open>TextBlock text\<close>, of type \<open>text\<close>, or
  \<open>ToolUseBlock id name input\<close>, of type \<open>tool_use\<close>. The test
  \<open>content_block.type == "tool_use"\<close> is the distinction of the two constructors.
\<close>

datatype content_block = TextBlock string | ToolUseBlock string string tool_input

record response =
  stop_reason :: string
  content :: "content_block list"

text \<open>The dictionary \<open>{"type": "tool_result", "tool_use_id": ..., "content": ...}\<close>.\<close>

datatype tool_result = ToolResult (tool_use_id: string) (result_content: string)

datatype role = user | assistant

datatype message_content =
    Str string
  | Blocks "content_block list"
  | Results "tool_result list"

datatype message = Message role message_content

text \<open>A tool definition of the catalog: name and description.\<close>

datatype tool_def = ToolDef string string

text \<open>
  The keyword arguments of \<open>messages.create\<close>. \<open>tools\<close> and \<open>tool_choice\<close> are
  \<open>None\<close> when the key is absent.
\<close>

record api_params =
  model :: string
  temperature :: nat
  max_tokens :: nat
  messages :: "message list"
  system :: string
  tools :: "tool_def list option"
  tool_choice :: "string option"

datatype event =
    ApiCall string api_params "exn + response"
  | ToolCall string tool_input "exn + string"

type_synonym 'w client = "api_params \<Rightarrow> 'w \<Rightarrow> (exn + response) \<times> 'w"

type_synonym 'w tool_manager = "string \<Rightarrow> tool_input \<Rightarrow> 'w \<Rightarrow> (exn + string) \<times> 'w"

text \<open>The object \<open>self\<close>: the client and the model name given to \<open>__init__\<close>.\<close>

record 'w generator =
  client :: "'w client"
  self_model :: string

text \<open>
  The local state of one invocation: \<open>msgs\<close> is the list \<open>messages\<close>,
  \<open>round_count\<close> the counter, \<open>world\<close> the state of the external services,
  \<open>trace\<close> the calls made so far.
\<close>

record 'w state =
  msgs :: "message list"
  round_count :: nat
  world :: 'w
  trace :: "event list"

subsection \<open>Constants\<close>

text \<open>
  \<open>SYSTEM_PROMPT\<close> is the class attribute, byte for byte in UTF-8; \<open>NL\<close> is the
  line feed.
\<close>

abbreviation NL :: string where "NL \<equiv> [CHR 0x0A]"

definition SYSTEM_PROMPT :: string where
  "SYSTEM_PROMPT =
   '' You are an AI assistant specialized in course materials and educational content with access to comprehensive search tools for course information.'' @ NL @
   NL @
   ''Available Tools:'' @ NL @
   ''- **search_course_content**: Search within course materials for specific content, topics, or detailed educational information'' @ NL @
   ''- **get_course_outline**: Get complete course outlines including course title, course link, and full lesson listings'' @ NL @
   NL @
   ''Tool Usage Guidelines:'' @ NL @
   ''- **Course outline requests**: Use get_course_outline for questions about course structure, lesson lists, or course overviews'' @ NL @
   ''- **Content/topic questions**: Use search_course_content for specific course content, explanations, or detailed materials'' @ NL @
   ''- **Sequential tool usage**: You may use multiple tool calls across up to 2 rounds to gather comprehensive information for complex queries'' @ NL @
   ''- **Multi-round scenarios**: Use sequential calls for comparisons, multi-part questions, or when information from different courses/lessons is needed'' @ NL @
   ''- Synthesize tool results into accurate, fact-based responses'' @ NL @
   ''- If tool yields no results, state this clearly without offering alternatives'' @ NL @
   NL @
   ''Response Protocol:'' @ NL @
   ''- **General knowledge questions**: Answer using existing knowledge without using tools'' @ NL @
   ''- **Course outline queries**: Use get_course_outline to provide course title, course link, and complete lesson breakdown'' @ NL @
   ''- **Course content queries**: Use search_course_content first, then answer'' @ NL @
   ''- **Complex queries**: Break down into multiple tool calls if needed (e.g., get outline first, then search for specific content)'' @ NL @
   ''- **No meta-commentary**:'' @ NL @
   '' - Provide direct answers only '' @ [CHR 0xC3] @ [CHR 0xA2] @ [CHR 0xE2] @ [CHR 0x82] @ [CHR 0xAC] @ [CHR 0xE2] @ [CHR 0x80] @ [CHR 0x9D] @ '' no reasoning process, tool explanations, or question-type analysis'' @ NL @
   '' - Do not mention '' @ [CHR 0x22] @ ''based on the search results'' @ [CHR 0x22] @ '' or '' @ [CHR 0x22] @ ''using the tool'' @ [CHR 0x22] @ NL @
   NL @
   ''All responses must be:'' @ NL @
   ''1. **Brief, Concise and focused** - Get to the point quickly'' @ NL @
   ''2. **Educational** - Maintain instructional value'' @ NL @
   ''3. **Clear** - Use accessible language'' @ NL @
   ''4. **Example-supported** - Include relevant examples when they aid understanding'' @ NL @
   ''Provide only the direct answer to what was asked.'' @ NL"

definition max_rounds :: nat where
  "max_rounds = 2"

definition base_params :: "'w generator \<Rightarrow> message list \<Rightarrow> string \<Rightarrow> api_params" where
  "base_params self ms sys =
     \<lparr>model = self_model self, temperature = 0, max_tokens = 800,
      messages = ms, system = sys, tools = None, tool_choice = None\<rparr>"

subsection \<open>Formatting\<close>

definition digit_char :: "nat \<Rightarrow> char" where
  "digit_char n = ''0123456789'' ! n"

fun string_of_nat :: "nat \<Rightarrow> string" where
  "string_of_nat n =
     (if n < 10 then [digit_char n] else string_of_nat (n div 10) @ [digit_char (n mod 10)])"

declare string_of_nat.simps [simp del]

subsection \<open>Operations\<close>

text \<open>
  \<open>_call_anthropic_api\<close>: one call of the client. The logging is not modelled; an
  exception of the client is raised again unchanged.
\<close>

definition call_anthropic_api ::
  "'w generator \<Rightarrow> api_params \<Rightarrow> string \<Rightarrow> 'w state \<Rightarrow> (exn + response) \<times> 'w state" where
  "call_anthropic_api self params round_info s =
     (case client self params (world s) of
        (r, w') \<Rightarrow> (r, s\<lparr>world := w', trace := trace s @ [ApiCall round_info params r]\<rparr>))"

text \<open>\<open>response.content[0].text\<close>.\<close>

fun first_text :: "content_block list \<Rightarrow> exn + string" where
  "first_text [] = Inl IndexError"
| "first_text (TextBlock t # bs) = Inr t"
| "first_text (ToolUseBlock i n inp # bs) = Inl AttributeError"

text \<open>
  The body of \<open>for content_block in response.content\<close>: the accumulator is
  \<open>tool_results\<close>, \<open>tool_execution_failed\<close> and the state.
\<close>

fun execute_block ::
  "'w tool_manager \<Rightarrow> content_block \<Rightarrow> tool_result list \<times> bool \<times> 'w state
     \<Rightarrow> tool_result list \<times> bool \<times> 'w state" where
  "execute_block tm (TextBlock t) acc = acc"
| "execute_block tm (ToolUseBlock i n inp) (tool_results, failed, s) =
     (case tm n inp (world s) of
        (Inr tool_result, w') \<Rightarrow>
          (tool_results @ [ToolResult i tool_result], failed,
           s\<lparr>world := w', trace := trace s @ [ToolCall n inp (Inr tool_result)]\<rparr>)
      | (Inl e, w') \<Rightarrow>
          (tool_results @ [ToolResult i (''Tool execution failed: '' @ str_exn e)], True,
           s\<lparr>world := w', trace := trace s @ [ToolCall n inp (Inl e)]\<rparr>))"

fun execute_blocks ::
  "'w tool_manager \<Rightarrow> content_block list \<Rightarrow> tool_result list \<times> bool \<times> 'w state
     \<Rightarrow> tool_result list \<times> bool \<times> 'w state" where
  "execute_blocks tm [] acc = acc"
| "execute_blocks tm (b # bs) acc = execute_blocks tm bs (execute_block tm b acc)"

text \<open>The truth value of \<open>tools\<close>: neither \<open>None\<close> nor the empty list.\<close>

fun truthy_tools :: "tool_def list option \<Rightarrow> bool" where
  "truthy_tools None = False"
| "truthy_tools (Some []) = False"
| "truthy_tools (Some (t # ts)) = True"

text \<open>The parameters and the log label of a call made in the loop.\<close>

definition loop_params ::
  "'w generator \<Rightarrow> tool_def list option \<Rightarrow> string \<Rightarrow> message list \<Rightarrow> api_params" where
  "loop_params self tls system_content ms =
     (if truthy_tools tls
      then (base_params self ms system_content)\<lparr>tools := tls, tool_choice := Some ''auto''\<rparr>
      else base_params self ms system_content)"

definition loop_round_info :: "nat \<Rightarrow> string" where
  "loop_round_info rc =
     (if rc > 0 then ''Round '' @ string_of_nat (rc + 1) else ''Initial'')"

text \<open>
  How an iteration ends: by \<open>return\<close> or by an exception that leaves the function
  (\<open>Return\<close>), by \<open>continue\<close>, or by \<open>break\<close>.
\<close>

datatype 'w control =
    Return "exn + string" "'w state"
  | Continue "'w state"
  | Break "'w state"

text \<open>The handler \<open>except Exception as e\<close> of the loop.\<close>

definition handle_api_error :: "exn \<Rightarrow> 'w state \<Rightarrow> 'w control" where
  "handle_api_error e s =
     (if round_count s = 0 then Return (Inl e) s
      else Return (Inr (''Error in round '' @ string_of_nat (round_count s + 1) @ '': '' @
                        str_exn e)) s)"

text \<open>The branch taken when the response asks for tools and a tool manager is there.\<close>

definition tool_round :: "'w tool_manager \<Rightarrow> response \<Rightarrow> 'w state \<Rightarrow> 'w control" where
  "tool_round tm resp s1 =
     (let s2 = s1\<lparr>round_count := round_count s1 + 1,
                  msgs := msgs s1 @ [Message assistant (Blocks (content resp))]\<rparr>
      in case execute_blocks tm (content resp) ([], False, s2) of
           (tool_results, tool_execution_failed, s3) \<Rightarrow>
             (let s4 = (if tool_results \<noteq> []
                        then s3\<lparr>msgs := msgs s3 @ [Message user (Results tool_results)]\<rparr>
                        else s3)
              in if tool_execution_failed then Break s4 else Continue s4))"

text \<open>One iteration of \<open>while round_count < max_rounds\<close>.\<close>

definition loop_body ::
  "'w generator \<Rightarrow> tool_def list option \<Rightarrow> 'w tool_manager option \<Rightarrow> string
     \<Rightarrow> 'w state \<Rightarrow> 'w control" where
  "loop_body self tls tool_manager system_content s =
     (case call_anthropic_api self (loop_params self tls system_content (msgs s))
             (loop_round_info (round_count s)) s of
        (Inl e, s1) \<Rightarrow> handle_api_error e s1
      | (Inr resp, s1) \<Rightarrow>
          (case (if stop_reason resp = ''tool_use'' then tool_manager else None) of
             Some tm \<Rightarrow> tool_round tm resp s1
           | None \<Rightarrow>
               (case first_text (content resp) of
                  Inr t \<Rightarrow> Return (Inr t) s1
                | Inl e \<Rightarrow> handle_api_error e s1)))"

text \<open>
  An iteration that goes on to the next one has incremented the counter: the loop ends.
\<close>

lemma call_anthropic_api_round_count:
  "call_anthropic_api self params ri s = (r, s1) \<Longrightarrow> round_count s1 = round_count s"
  by (auto simp: call_anthropic_api_def split: prod.splits)

lemma execute_block_round_count:
  "round_count (snd (snd (execute_block tm b acc))) = round_count (snd (snd acc))"
  by (cases b; cases acc) (auto split: prod.splits sum.splits)

lemma execute_blocks_round_count:
  "round_count (snd (snd (execute_blocks tm bs acc))) = round_count (snd (snd acc))"
  by (induction bs arbitrary: acc) (simp_all add: execute_block_round_count)

lemma tool_round_round_count:
  assumes "tool_round tm resp s1 = Continue s' \<or> tool_round tm resp s1 = Break s'"
  shows "round_count s' = Suc (round_count s1)"
  using assms execute_blocks_round_count
    [of tm "content resp" "([], False, s1\<lparr>round_count := round_count s1 + 1,
       msgs := msgs s1 @ [Message assistant (Blocks (content resp))]\<rparr>)"]
  by (auto simp: tool_round_def Let_def split: prod.splits if_splits)

lemma handle_api_error_not_Continue: "handle_api_error e s \<noteq> Continue s'"
  by (simp add: handle_api_error_def)

lemma loop_body_Continue_round_count:
  assumes "loop_body self tls tool_manager system_content s = Continue s'"
  shows "round_count s' = Suc (round_count s)"
proof -
  obtain r s1 where c: "call_anthropic_api self (loop_params self tls system_content (msgs s))
      (loop_round_info (round_count s)) s = (r, s1)"
    by (cases "call_anthropic_api self (loop_params self tls system_content (msgs s))
      (loop_round_info (round_count s)) s")
  have rc: "round_count s1 = round_count s"
    using c by (rule call_anthropic_api_round_count)
  from assms c obtain resp tm where "tool_round tm resp s1 = Continue s'"
    by (auto simp: loop_body_def handle_api_error_not_Continue
             split: sum.splits option.splits if_splits)
  then show ?thesis
    using tool_round_round_count [of tm resp s1 s'] rc by simp
qed

text \<open>
  The loop \<open>while round_count < max_rounds\<close>: \<open>Some r\<close> when an iteration returned
  \<open>r\<close> (or raised it), \<open>None\<close> when the loop was left by \<open>break\<close> or by its
  condition.
\<close>

function loop ::
  "'w generator \<Rightarrow> tool_def list option \<Rightarrow> 'w tool_manager option \<Rightarrow> string
     \<Rightarrow> 'w state \<Rightarrow> (exn + string) option \<times> 'w state" where
  "loop self tls tool_manager system_content s =
     (if round_count s < max_rounds
      then (case loop_body self tls tool_manager system_content s of
              Return r s' \<Rightarrow> (Some r, s')
            | Break s' \<Rightarrow> (None, s')
            | Continue s' \<Rightarrow> loop self tls tool_manager system_content s')
      else (None, s))"
  by pat_completeness auto
termination
  by (relation "measure (\<lambda>(self, tls, tool_manager, system_content, s).
                  max_rounds - round_count s)")
     (auto dest: loop_body_Continue_round_count)

declare loop.simps [simp del]

text \<open>The call after the loop, without the catalog.\<close>

definition final_call :: "'w generator \<Rightarrow> string \<Rightarrow> 'w state \<Rightarrow> (exn + string) \<times> 'w state" where
  "final_call self system_content s =
     (case call_anthropic_api self (base_params self (msgs s) system_content) ''Final'' s of
        (Inl e, s1) \<Rightarrow> (Inr (''Error generating final response: '' @ str_exn e), s1)
      | (Inr final_response, s1) \<Rightarrow>
          (case first_text (content final_response) of
             Inr t \<Rightarrow> (Inr t, s1)
           | Inl e \<Rightarrow> (Inr (''Error generating final response: '' @ str_exn e), s1)))"

text \<open>
  \<open>conversation_history\<close> is \<open>None\<close> or a string; the empty string is false in
  Python.
\<close>

definition build_system_content :: "string option \<Rightarrow> string" where
  "build_system_content conversation_history =
     (case conversation_history of
        None \<Rightarrow> SYSTEM_PROMPT
      | Some h \<Rightarrow>
          (if h \<noteq> [] then SYSTEM_PROMPT @ NL @ NL @ ''Previous conversation:'' @ NL @ h
           else SYSTEM_PROMPT))"

definition initial_state :: "string \<Rightarrow> 'w \<Rightarrow> 'w state" where
  "initial_state query w =
     \<lparr>msgs = [Message user (Str query)], round_count = 0, world = w, trace = []\<rparr>"

text \<open>
  \<open>generate_response\<close>: the result (\<open>Inl\<close> an exception that reaches the caller,
  \<open>Inr\<close> the returned string) and the state at the end.
\<close>

definition generate_response ::
  "'w generator \<Rightarrow> string \<Rightarrow> string option \<Rightarrow> tool_def list option
     \<Rightarrow> 'w tool_manager option \<Rightarrow> 'w \<Rightarrow> (exn + string) \<times> 'w state" where
  "generate_response self query conversation_history tls tool_manager w =
     (let system_content = build_system_content conversation_history
      in case loop self tls tool_manager system_content (initial_state query w) of
           (Some r, s) \<Rightarrow> (r, s)
         | (None, s) \<Rightarrow> final_call self system_content s)"

subsection \<open>Vocabulary for the statements\<close>

text \<open>
  The identifiers, and the names with their arguments, of the tool-invocation blocks of
  a content list, in order.
\<close>

fun tool_use_ids :: "content_block list \<Rightarrow> string list" where
  "tool_use_ids [] = []"
| "tool_use_ids (TextBlock t # bs) = tool_use_ids bs"
| "tool_use_ids (ToolUseBlock i n inp # bs) = i # tool_use_ids bs"

fun tool_use_calls :: "content_block list \<Rightarrow> (string \<times> tool_input) list" where
  "tool_use_calls [] = []"
| "tool_use_calls (TextBlock t # bs) = tool_use_calls bs"
| "tool_use_calls (ToolUseBlock i n inp # bs) = (n, inp) # tool_use_calls bs"

text \<open>The content of the tool result written for an outcome of \<open>execute_tool\<close>.\<close>

fun result_text :: "exn + string \<Rightarrow> string" where
  "result_text (Inr r) = r"
| "result_text (Inl e) = ''Tool execution failed: '' @ str_exn e"

text \<open>
  What one tool round adds, given the outcomes of its dispatches in order: the events of
  the trace and the messages.
\<close>

definition tool_events :: "content_block list \<Rightarrow> (exn + string) list \<Rightarrow> event list" where
  "tool_events bs outs = map2 (\<lambda>c out. ToolCall (fst c) (snd c) out) (tool_use_calls bs) outs"

definition round_results :: "content_block list \<Rightarrow> (exn + string) list \<Rightarrow> tool_result list" where
  "round_results bs outs = map2 ToolResult (tool_use_ids bs) (map result_text outs)"

definition round_messages :: "content_block list \<Rightarrow> (exn + string) list \<Rightarrow> message list" where
  "round_messages bs outs =
     Message assistant (Blocks bs) #
     (if round_results bs outs = [] then []
      else [Message user (Results (round_results bs outs))])"

definition raised :: "(exn + string) list \<Rightarrow> bool" where
  "raised outs = (\<exists>out \<in> set outs. isl out)"

text \<open>What the function returns after the final call, given the outcome of that call.\<close>

definition final_result :: "exn + response \<Rightarrow> exn + string" where
  "final_result rf =
     (case rf of
        Inl e \<Rightarrow> Inr (''Error generating final response: '' @ str_exn e)
      | Inr r \<Rightarrow>
          (case first_text (content r) of
             Inr t \<Rightarrow> Inr t
           | Inl e \<Rightarrow> Inr (''Error generating final response: '' @ str_exn e)))"

text \<open>The inference calls of a trace: the log label and the parameters of each.\<close>

fun api_calls :: "event list \<Rightarrow> (string \<times> api_params) list" where
  "api_calls [] = []"
| "api_calls (ApiCall ri p r # evs) = (ri, p) # api_calls evs"
| "api_calls (ToolCall n inp out # evs) = api_calls evs"

text \<open>The tool dispatches of a trace: the name and the arguments of each.\<close>

fun dispatches :: "event list \<Rightarrow> (string \<times> tool_input) list" where
  "dispatches [] = []"
| "dispatches (ApiCall ri p r # evs) = dispatches evs"
| "dispatches (ToolCall n inp out # evs) = (n, inp) # dispatches evs"



subsection \<open>A scripted client and tool manager\<close>

text \<open>
  For concrete runs: the world is a list of the outcomes the client will give and a list
  of those the tool manager will give, each consumed from the front, as a mock with a
  list of side effects does.
\<close>

type_synonym script = "(exn + response) list \<times> (exn + string) list"

definition scripted_client :: "script client" where
  "scripted_client params w =
     (case fst w of
        [] \<Rightarrow> (Inl (Exception ''StopIteration''), w)
      | r # rs \<Rightarrow> (r, (rs, snd w)))"

definition scripted_tools :: "script tool_manager" where
  "scripted_tools n inp w =
     (case snd w of
        [] \<Rightarrow> (Inl (Exception ''StopIteration''), w)
      | r # rs \<Rightarrow> (r, (fst w, rs)))"

definition scripted_generator :: "script generator" where
  "scripted_generator = \<lparr>client = scripted_client, self_model = ''claude''\<rparr>"


text \<open>
  The claim's words "the first text block available": the text of the first block of the
  content that is a text block, if there is one.
\<close>

fun first_text_block_available :: "content_block list \<Rightarrow> string option" where
  "first_text_block_available [] = None"
| "first_text_block_available (TextBlock t # bs) = Some t"
| "first_text_block_available (ToolUseBlock i n inp # bs) = first_text_block_available bs"

subsection \<open>Concrete responses and scripts\<close>

definition catalog :: "tool_def list" where
  "catalog =
     [ToolDef ''search_course_content'' ''Search course materials'',
      ToolDef ''get_course_outline'' ''Get a course outline'']"

definition outline_request :: response where
  "outline_request =
     \<lparr>stop_reason = ''tool_use'',
      content = [ToolUseBlock ''tool_1'' ''get_course_outline'' [(''course_name'', ''MCP'')]]\<rparr>"

definition search_request :: response where
  "search_request =
     \<lparr>stop_reason = ''tool_use'',
      content = [TextBlock ''Searching.'',
                 ToolUseBlock ''tool_2'' ''search_course_content'' [(''query'', ''lesson 4'')],
                 ToolUseBlock ''tool_3'' ''search_course_content'' [(''query'', ''lesson 5'')]]\<rparr>"

definition text_response :: response where
  "text_response = \<lparr>stop_reason = ''end_turn'', content = [TextBlock ''Final answer'']\<rparr>"

definition empty_response :: response where
  "empty_response = \<lparr>stop_reason = ''end_turn'', content = []\<rparr>"

definition bare_tool_use :: response where
  "bare_tool_use = \<lparr>stop_reason = ''tool_use'', content = [TextBlock ''Let me think.'']\<rparr>"

definition tool_first_response :: response where
  "tool_first_response =
     \<lparr>stop_reason = ''tool_use'',
      content = [ToolUseBlock ''tool_1'' ''search_course_content'' [(''query'', ''x'')],
                 TextBlock ''answer'']\<rparr>"

text \<open>Two tool rounds, then the final answer.\<close>

definition script_two_rounds :: script where
  "script_two_rounds =
     ([Inr outline_request, Inr search_request, Inr text_response],
      [Inr ''outline'', Inr ''lesson 4 text'', Inr ''lesson 5 text''])"

text \<open>One tool round, then the client fails.\<close>

definition script_second_call_fails :: script where
  "script_second_call_fails =
     ([Inr outline_request, Inl (Exception ''API down'')], [Inr ''outline''])"

text \<open>A round of two dispatches of which the first fails, then the final answer.\<close>

definition script_dispatch_fails :: script where
  "script_dispatch_fails =
     ([Inr search_request, Inr text_response],
      [Inl (Exception ''Tool failed''), Inr ''lesson 5 text''])"

text \<open>Two tool rounds, then a final response without content.\<close>

definition script_empty_final :: script where
  "script_empty_final =
     ([Inr outline_request, Inr outline_request, Inr empty_response],
      [Inr ''outline'', Inr ''outline''])"

text \<open>Two responses that ask for tools without a tool-invocation block.\<close>

definition script_bare_tool_use :: script where
  "script_bare_tool_use =
     ([Inr bare_tool_use, Inr bare_tool_use, Inr text_response], [])"

subsection \<open>What one tool round does\<close>

lemma length_tool_use_calls: "length (tool_use_calls bs) = length (tool_use_ids bs)"
  by (induction bs rule: tool_use_ids.induct) simp_all

lemma execute_blocks_char:
  "\<exists>outs w'. length outs = length (tool_use_ids bs) \<and>
     execute_blocks tm bs (trs, f, s) =
       (trs @ round_results bs outs, f \<or> raised outs,
        s\<lparr>world := w', trace := trace s @ tool_events bs outs\<rparr>)"
proof (induction bs arbitrary: trs f s)
  case Nil
  have "execute_blocks tm [] (trs, f, s) =
      (trs @ round_results [] [], f \<or> raised [],
       s\<lparr>world := world s, trace := trace s @ tool_events [] []\<rparr>)"
    by (simp add: round_results_def raised_def tool_events_def)
  then show ?case by (intro exI [of _ "[]"] exI [of _ "world s"]) simp
next
  case (Cons b bs)
  show ?case
  proof (cases b)
    case (TextBlock t)
    from Cons.IH [of trs f s] obtain outs w' where
      "length outs = length (tool_use_ids bs)"
      "execute_blocks tm bs (trs, f, s) =
         (trs @ round_results bs outs, f \<or> raised outs,
          s\<lparr>world := w', trace := trace s @ tool_events bs outs\<rparr>)"
      by blast
    then show ?thesis
      using TextBlock
      by (intro exI [of _ outs] exI [of _ w'])
         (simp add: round_results_def tool_events_def)
  next
    case (ToolUseBlock i n inp)
    obtain out w1 where tm: "tm n inp (world s) = (out, w1)"
      by (cases "tm n inp (world s)")
    define s1 where "s1 = s\<lparr>world := w1, trace := trace s @ [ToolCall n inp out]\<rparr>"
    have step: "execute_block tm b (trs, f, s) =
        (trs @ [ToolResult i (result_text out)], f \<or> isl out, s1)"
      using ToolUseBlock tm by (cases out) (simp_all add: s1_def)
    from Cons.IH [of "trs @ [ToolResult i (result_text out)]" "f \<or> isl out" s1]
    obtain outs w' where len: "length outs = length (tool_use_ids bs)"
      and ex: "execute_blocks tm bs (trs @ [ToolResult i (result_text out)], f \<or> isl out, s1) =
         ((trs @ [ToolResult i (result_text out)]) @ round_results bs outs,
          (f \<or> isl out) \<or> raised outs,
          s1\<lparr>world := w', trace := trace s1 @ tool_events bs outs\<rparr>)"
      by blast
    have "length (out # outs) = length (tool_use_ids (b # bs))"
      using len ToolUseBlock by simp
    moreover have "execute_blocks tm (b # bs) (trs, f, s) =
        (trs @ round_results (b # bs) (out # outs), f \<or> raised (out # outs),
         s\<lparr>world := w', trace := trace s @ tool_events (b # bs) (out # outs)\<rparr>)"
      using step ex ToolUseBlock
      by (auto simp: round_results_def raised_def tool_events_def s1_def)
    ultimately show ?thesis by blast
  qed
qed

lemma round_results_Nil_iff:
  "length outs = length (tool_use_ids bs) \<Longrightarrow> round_results bs outs = [] \<longleftrightarrow> tool_use_ids bs = []"
  by (cases "tool_use_ids bs"; cases outs) (simp_all add: round_results_def)

lemma tool_round_char:
  "\<exists>outs w'. length outs = length (tool_use_ids (content resp)) \<and>
     tool_round tm resp s1 =
       (if raised outs then Break else Continue)
         (s1\<lparr>msgs := msgs s1 @ round_messages (content resp) outs,
              round_count := Suc (round_count s1),
              world := w',
              trace := trace s1 @ tool_events (content resp) outs\<rparr>)"
proof -
  define s2 where "s2 = s1\<lparr>round_count := round_count s1 + 1,
      msgs := msgs s1 @ [Message assistant (Blocks (content resp))]\<rparr>"
  from execute_blocks_char [of "content resp" tm "[]" False s2]
  obtain outs w' where len: "length outs = length (tool_use_ids (content resp))"
    and ex: "execute_blocks tm (content resp) ([], False, s2) =
       (round_results (content resp) outs, raised outs,
        s2\<lparr>world := w', trace := trace s2 @ tool_events (content resp) outs\<rparr>)"
    by auto
  have "tool_round tm resp s1 =
       (if raised outs then Break else Continue)
         (s1\<lparr>msgs := msgs s1 @ round_messages (content resp) outs,
              round_count := Suc (round_count s1),
              world := w',
              trace := trace s1 @ tool_events (content resp) outs\<rparr>)"
    unfolding tool_round_def Let_def s2_def [symmetric] ex
    by (simp add: s2_def round_messages_def)
  with len show ?thesis by blast
qed

subsection \<open>What one iteration and the final call do\<close>

lemma final_call_char:
  "\<exists>rf w'. final_call self sys s =
     (final_result rf,
      s\<lparr>world := w', trace := trace s @ [ApiCall ''Final'' (base_params self (msgs s) sys) rf]\<rparr>)"
proof -
  obtain rf w' where c: "client self (base_params self (msgs s) sys) (world s) = (rf, w')"
    by (cases "client self (base_params self (msgs s) sys) (world s)")
  have "final_call self sys s =
     (final_result rf,
      s\<lparr>world := w', trace := trace s @ [ApiCall ''Final'' (base_params self (msgs s) sys) rf]\<rparr>)"
    using c
    by (simp add: final_call_def call_anthropic_api_def final_result_def
             split: sum.splits)
  then show ?thesis by blast
qed

lemma loop_body_cases [consumes 1, case_names raises terminal round]:
  assumes "loop_body self tls tm sys s = c"
  obtains
    (raises) e w1 where
      "c = handle_api_error e
             (s\<lparr>world := w1,
                trace := trace s @ [ApiCall (loop_round_info (round_count s))
                                      (loop_params self tls sys (msgs s)) (Inl e)]\<rparr>)"
  | (terminal) resp w1 where
      "\<not> (stop_reason resp = ''tool_use'' \<and> tm \<noteq> None)"
      "c = (case first_text (content resp) of
              Inr t \<Rightarrow> Return (Inr t)
            | Inl e \<Rightarrow> handle_api_error e)
             (s\<lparr>world := w1,
                trace := trace s @ [ApiCall (loop_round_info (round_count s))
                                      (loop_params self tls sys (msgs s)) (Inr resp)]\<rparr>)"
  | (round) resp t outs w1 where
      "tm = Some t" "stop_reason resp = ''tool_use''"
      "length outs = length (tool_use_ids (content resp))"
      "c = (if raised outs then Break else Continue)
             (s\<lparr>msgs := msgs s @ round_messages (content resp) outs,
                round_count := Suc (round_count s),
                world := w1,
                trace := trace s @ ApiCall (loop_round_info (round_count s))
                                     (loop_params self tls sys (msgs s)) (Inr resp) #
                                   tool_events (content resp) outs\<rparr>)"
proof -
  let ?p = "loop_params self tls sys (msgs s)"
  let ?ri = "loop_round_info (round_count s)"
  obtain r w1 where cl: "client self ?p (world s) = (r, w1)"
    by (cases "client self ?p (world s)")
  define s1 where "s1 = s\<lparr>world := w1, trace := trace s @ [ApiCall ?ri ?p r]\<rparr>"
  have call: "call_anthropic_api self ?p ?ri s = (r, s1)"
    using cl by (simp add: call_anthropic_api_def s1_def)
  show thesis
  proof (cases r)
    case (Inl e)
    then have "c = handle_api_error e s1"
      using assms call by (simp add: loop_body_def)
    then show thesis using raises Inl by (simp add: s1_def)
  next
    case (Inr resp)
    show thesis
    proof (cases "stop_reason resp = ''tool_use'' \<and> tm \<noteq> None")
      case False
      then have "(if stop_reason resp = ''tool_use'' then tm else None) = None"
        by auto
      then have "c = (case first_text (content resp) of
              Inr t \<Rightarrow> Return (Inr t) | Inl e \<Rightarrow> handle_api_error e) s1"
        using assms call Inr by (simp add: loop_body_def split: sum.splits)
      then show thesis using terminal [of resp w1] False Inr by (simp add: s1_def)
    next
      case True
      then obtain t where t: "tm = Some t" by auto
      then have c: "c = tool_round t resp s1"
        using assms call Inr True by (simp add: loop_body_def)
      from tool_round_char [of resp t s1] obtain outs w' where
        len: "length outs = length (tool_use_ids (content resp))" and
        tr: "tool_round t resp s1 =
          (if raised outs then Break else Continue)
            (s1\<lparr>msgs := msgs s1 @ round_messages (content resp) outs,
                round_count := Suc (round_count s1),
                world := w',
                trace := trace s1 @ tool_events (content resp) outs\<rparr>)"
        by blast
      show thesis
        using round [of t resp outs w'] t True len c tr Inr
        by (simp add: s1_def)
    qed
  qed
qed

subsection \<open>The runs of \<open>generate_response\<close>\<close>

lemma loop_round_info_0: "loop_round_info 0 = ''Initial''"
  by (simp add: loop_round_info_def)

lemma string_of_nat_2: "string_of_nat (Suc (Suc 0)) = ''2''"
  by (simp add: string_of_nat.simps digit_char_def)

lemma loop_round_info_1: "loop_round_info (Suc 0) = ''Round 2''"
  by (simp add: loop_round_info_def string_of_nat_2)

text \<open>
  Every run has one of six shapes: the first call raises; the first response ends the
  run; the first round has a failed dispatch and the final call follows; the second call
  raises; the second response ends the run; two rounds and the final call.
\<close>

lemma generate_response_cases
  [consumes 1, case_names first_raises first_terminal round1_failed second_raises
     second_terminal two_rounds]:
  assumes "generate_response self query h tls tm w = (res, s)"
  obtains
    (first_raises) e where
      "res = Inl e" "round_count s = 0" "msgs s = [Message user (Str query)]"
      "trace s = [ApiCall ''Initial''
                   (loop_params self tls (build_system_content h) [Message user (Str query)])
                   (Inl e)]"
  | (first_terminal) resp where
      "\<not> (stop_reason resp = ''tool_use'' \<and> tm \<noteq> None)"
      "res = first_text (content resp)" "round_count s = 0"
      "msgs s = [Message user (Str query)]"
      "trace s = [ApiCall ''Initial''
                   (loop_params self tls (build_system_content h) [Message user (Str query)])
                   (Inr resp)]"
  | (round1_failed) t resp1 outs1 rf where
      "tm = Some t" "stop_reason resp1 = ''tool_use''"
      "length outs1 = length (tool_use_ids (content resp1))" "raised outs1"
      "res = final_result rf" "round_count s = 1"
      "msgs s = Message user (Str query) # round_messages (content resp1) outs1"
      "trace s =
         ApiCall ''Initial''
           (loop_params self tls (build_system_content h) [Message user (Str query)])
           (Inr resp1) #
         tool_events (content resp1) outs1 @
         [ApiCall ''Final'' (base_params self (msgs s) (build_system_content h)) rf]"
  | (second_raises) t resp1 outs1 e where
      "tm = Some t" "stop_reason resp1 = ''tool_use''"
      "length outs1 = length (tool_use_ids (content resp1))" "\<not> raised outs1"
      "res = Inr (''Error in round 2: '' @ str_exn e)" "round_count s = 1"
      "msgs s = Message user (Str query) # round_messages (content resp1) outs1"
      "trace s =
         ApiCall ''Initial''
           (loop_params self tls (build_system_content h) [Message user (Str query)])
           (Inr resp1) #
         tool_events (content resp1) outs1 @
         [ApiCall ''Round 2'' (loop_params self tls (build_system_content h) (msgs s)) (Inl e)]"
  | (second_terminal) t resp1 outs1 resp2 where
      "tm = Some t" "stop_reason resp1 = ''tool_use''"
      "length outs1 = length (tool_use_ids (content resp1))" "\<not> raised outs1"
      "stop_reason resp2 \<noteq> ''tool_use''"
      "res = (case first_text (content resp2) of
                Inr txt \<Rightarrow> Inr txt
              | Inl e \<Rightarrow> Inr (''Error in round 2: '' @ str_exn e))"
      "round_count s = 1"
      "msgs s = Message user (Str query) # round_messages (content resp1) outs1"
      "trace s =
         ApiCall ''Initial''
           (loop_params self tls (build_system_content h) [Message user (Str query)])
           (Inr resp1) #
         tool_events (content resp1) outs1 @
         [ApiCall ''Round 2'' (loop_params self tls (build_system_content h) (msgs s))
            (Inr resp2)]"
  | (two_rounds) t resp1 outs1 resp2 outs2 rf where
      "tm = Some t" "stop_reason resp1 = ''tool_use''"
      "length outs1 = length (tool_use_ids (content resp1))" "\<not> raised outs1"
      "stop_reason resp2 = ''tool_use''"
      "length outs2 = length (tool_use_ids (content resp2))"
      "res = final_result rf" "round_count s = 2"
      "msgs s = Message user (Str query) # round_messages (content resp1) outs1 @
                  round_messages (content resp2) outs2"
      "trace s =
         ApiCall ''Initial''
           (loop_params self tls (build_system_content h) [Message user (Str query)])
           (Inr resp1) #
         tool_events (content resp1) outs1 @
         ApiCall ''Round 2''
           (loop_params self tls (build_system_content h)
              (Message user (Str query) # round_messages (content resp1) outs1))
           (Inr resp2) #
         tool_events (content resp2) outs2 @
         [ApiCall ''Final'' (base_params self (msgs s) (build_system_content h)) rf]"
proof -
  let ?sys = "build_system_content h"
  let ?s0 = "initial_state query w :: 'a state"
  have gen: "(case loop self tls tm ?sys ?s0 of
                (Some r, s') \<Rightarrow> (r, s')
              | (None, s') \<Rightarrow> final_call self ?sys s') = (res, s)"
    using assms by (simp add: generate_response_def Let_def)
  have s0: "round_count ?s0 = 0" "msgs ?s0 = [Message user (Str query)]" "trace ?s0 = []"
    by (simp_all add: initial_state_def)
  have loop0: "loop self tls tm ?sys ?s0 =
      (case loop_body self tls tm ?sys ?s0 of
         Return r s' \<Rightarrow> (Some r, s')
       | Break s' \<Rightarrow> (None, s')
       | Continue s' \<Rightarrow> loop self tls tm ?sys s')"
    by (subst loop.simps) (simp add: s0 max_rounds_def)
  obtain c where c: "loop_body self tls tm ?sys ?s0 = c" by simp
  from c show thesis
  proof (cases rule: loop_body_cases)
    case (raises e w1)
    then have "loop self tls tm ?sys ?s0 =
        (Some (Inl e), ?s0\<lparr>world := w1,
           trace := [ApiCall ''Initial'' (loop_params self tls ?sys [Message user (Str query)])
                      (Inl e)]\<rparr>)"
      using c loop0 by (simp add: s0 handle_api_error_def loop_round_info_0)
    with gen show thesis
      using first_raises [of e] by (auto simp: s0)
  next
    case (terminal resp w1)
    let ?s1 = "?s0\<lparr>world := w1,
           trace := [ApiCall ''Initial'' (loop_params self tls ?sys [Message user (Str query)])
                      (Inr resp)]\<rparr>"
    have "loop self tls tm ?sys ?s0 = (Some (first_text (content resp)), ?s1)"
      using terminal(2) c loop0
      by (simp add: s0 handle_api_error_def loop_round_info_0 split: sum.splits)
    with gen show thesis
      using first_terminal [of resp] terminal(1) by (auto simp: s0)
  next
    case (round resp1 t outs1 w1)
    define s4 where "s4 = ?s0\<lparr>msgs := Message user (Str query) # round_messages (content resp1) outs1,
        round_count := Suc 0, world := w1,
        trace := ApiCall ''Initial'' (loop_params self tls ?sys [Message user (Str query)])
                   (Inr resp1) # tool_events (content resp1) outs1\<rparr>"
    have c4: "c = (if raised outs1 then Break else Continue) s4"
      using round(4) by (simp add: s0 s4_def loop_round_info_0)
    have s4: "round_count s4 = Suc 0"
      "msgs s4 = Message user (Str query) # round_messages (content resp1) outs1"
      "trace s4 = ApiCall ''Initial'' (loop_params self tls ?sys [Message user (Str query)])
                   (Inr resp1) # tool_events (content resp1) outs1"
      by (simp_all add: s4_def)
    show thesis
    proof (cases "raised outs1")
      case True
      then have "loop self tls tm ?sys ?s0 = (None, s4)"
        using c c4 loop0 by simp
      then have fc: "final_call self ?sys s4 = (res, s)"
        using gen by simp
      from final_call_char [of self ?sys s4] obtain rf w' where
        "final_call self ?sys s4 = (final_result rf,
           s4\<lparr>world := w', trace := trace s4 @
             [ApiCall ''Final'' (base_params self (msgs s4) ?sys) rf]\<rparr>)"
        by blast
      with fc have "res = final_result rf" "round_count s = 1" "msgs s = msgs s4"
        "trace s = trace s4 @ [ApiCall ''Final'' (base_params self (msgs s4) ?sys) rf]"
        by (auto simp: s4)
      then show thesis
        using round1_failed [of t resp1 outs1 rf] round(1-3) True by (simp add: s4)
    next
      case False
      then have l1: "loop self tls tm ?sys ?s0 = loop self tls tm ?sys s4"
        using c c4 loop0 by simp
      have loop1: "loop self tls tm ?sys s4 =
          (case loop_body self tls tm ?sys s4 of
             Return r s' \<Rightarrow> (Some r, s')
           | Break s' \<Rightarrow> (None, s')
           | Continue s' \<Rightarrow> loop self tls tm ?sys s')"
        by (subst loop.simps) (simp add: s4 max_rounds_def)
      obtain c' where c': "loop_body self tls tm ?sys s4 = c'" by simp
      from c' show thesis
      proof (cases rule: loop_body_cases)
        case (raises e w2)
        let ?s5 = "s4\<lparr>world := w2, trace := trace s4 @
            [ApiCall ''Round 2'' (loop_params self tls ?sys (msgs s4)) (Inl e)]\<rparr>"
        have "loop self tls tm ?sys s4 = (Some (Inr (''Error in round 2: '' @ str_exn e)), ?s5)"
          using raises c' loop1
          by (simp add: s4 handle_api_error_def loop_round_info_1 string_of_nat_2)
        with gen l1 have "res = Inr (''Error in round 2: '' @ str_exn e)" "s = ?s5"
          by simp_all
        then show thesis
          using second_raises [of t resp1 outs1 e] round(1-3) False by (simp add: s4)
      next
        case (terminal resp2 w2)
        let ?s5 = "s4\<lparr>world := w2, trace := trace s4 @
            [ApiCall ''Round 2'' (loop_params self tls ?sys (msgs s4)) (Inr resp2)]\<rparr>"
        have "loop self tls tm ?sys s4 =
            (Some (case first_text (content resp2) of
                     Inr txt \<Rightarrow> Inr txt
                   | Inl e \<Rightarrow> Inr (''Error in round 2: '' @ str_exn e)), ?s5)"
          using terminal(2) c' loop1
          by (simp add: s4 handle_api_error_def loop_round_info_1 string_of_nat_2
                   split: sum.splits)
        with gen l1 have "res = (case first_text (content resp2) of
                     Inr txt \<Rightarrow> Inr txt
                   | Inl e \<Rightarrow> Inr (''Error in round 2: '' @ str_exn e))" "s = ?s5"
          by simp_all
        then show thesis
          using second_terminal [of t resp1 outs1 resp2] round(1-3) False terminal(1)
          by (simp add: s4)
      next
        case r2: (round resp2 t2 outs2 w2)
        define s6 where "s6 = s4\<lparr>msgs := msgs s4 @ round_messages (content resp2) outs2,
            round_count := Suc (Suc 0), world := w2,
            trace := trace s4 @ ApiCall ''Round 2'' (loop_params self tls ?sys (msgs s4))
                       (Inr resp2) # tool_events (content resp2) outs2\<rparr>"
        have c6: "c' = (if raised outs2 then Break else Continue) s6"
          using r2(4) by (simp add: s4 s6_def loop_round_info_1)
        have s6: "round_count s6 = 2"
          "msgs s6 = msgs s4 @ round_messages (content resp2) outs2"
          "trace s6 = trace s4 @ ApiCall ''Round 2'' (loop_params self tls ?sys (msgs s4))
                       (Inr resp2) # tool_events (content resp2) outs2"
          by (simp_all add: s6_def)
        have "loop self tls tm ?sys s6 = (None, s6)"
          by (subst loop.simps) (simp add: s6 max_rounds_def)
        then have "loop self tls tm ?sys s4 = (None, s6)"
          using c' c6 loop1 by (cases "raised outs2") simp_all
        then have fc: "final_call self ?sys s6 = (res, s)"
          using gen l1 by simp
        from final_call_char [of self ?sys s6] obtain rf w' where
          "final_call self ?sys s6 = (final_result rf,
             s6\<lparr>world := w', trace := trace s6 @
               [ApiCall ''Final'' (base_params self (msgs s6) ?sys) rf]\<rparr>)"
          by blast
        with fc have "res = final_result rf" "round_count s = 2" "msgs s = msgs s6"
          "trace s = trace s6 @ [ApiCall ''Final'' (base_params self (msgs s6) ?sys) rf]"
          by (auto simp: s6)
        then show thesis
          using two_rounds [of t resp1 outs1 resp2 outs2 rf] round(1-3) False r2(2,3)
          by (simp add: s4 s6)
      qed
    qed
  qed
qed

subsection \<open>Facts about traces and parameters\<close>

lemma api_calls_append: "api_calls (xs @ ys) = api_calls xs @ api_calls ys"
  by (induction xs rule: api_calls.induct) simp_all

lemma api_calls_tool_events: "api_calls (tool_events bs outs) = []"
proof -
  have "api_calls (map2 (\<lambda>c out. ToolCall (fst c) (snd c) out) cs outs) = []" for cs
    by (induction cs arbitrary: outs) (auto split: list.splits simp: zip_Cons1)
  then show ?thesis by (simp add: tool_events_def)
qed

lemma tool_events_outcome:
  "ToolCall n inp out \<in> set (tool_events bs outs) \<Longrightarrow> out \<in> set outs"
  by (auto simp: tool_events_def dest: set_zip_rightD)

lemma tool_events_no_api: "ApiCall ri p r \<notin> set (tool_events bs outs)"
  by (auto simp: tool_events_def)

lemma loop_params_fields:
  "messages (loop_params self tls sys ms) = ms"
  "system (loop_params self tls sys ms) = sys"
  "tools (loop_params self tls sys ms) = (if truthy_tools tls then tls else None)"
  by (simp_all add: loop_params_def base_params_def)

lemma base_params_fields:
  "messages (base_params self ms sys) = ms"
  "system (base_params self ms sys) = sys"
  "tools (base_params self ms sys) = None"
  "tool_choice (base_params self ms sys) = None"
  by (simp_all add: base_params_def)

lemma generate_response_system:
  assumes "generate_response self query h tls tm w = (res, s)"
  shows "\<forall>c \<in> set (api_calls (trace s)). system (snd c) = build_system_content h"
  using assms
  by (cases rule: generate_response_cases)
     (auto simp: api_calls_append api_calls_tool_events loop_params_fields base_params_fields)

lemmas run_defs = generate_response_def Let_def initial_state_def loop.simps loop_body_def
  call_anthropic_api_def scripted_generator_def scripted_client_def scripted_tools_def
  tool_round_def handle_api_error_def final_call_def max_rounds_def
  loop_round_info_def string_of_nat.simps digit_char_def loop_params_def base_params_def

lemmas fixture_defs = catalog_def outline_request_def search_request_def text_response_def
  empty_response_def bare_tool_use_def tool_first_response_def script_two_rounds_def
  script_second_call_fails_def script_dispatch_fails_def script_empty_final_def
  script_bare_tool_use_def


lemma dispatches_tool_events:
  "length outs = length (tool_use_ids bs) \<Longrightarrow> dispatches (tool_events bs outs) = tool_use_calls bs"
proof -
  have "length outs = length cs \<Longrightarrow>
      dispatches (map2 (\<lambda>c out. ToolCall (fst c) (snd c) out) cs outs) = cs"
    for cs :: "(string \<times> tool_input) list"
    by (induction cs outs rule: list_induct2') simp_all
  then show "length outs = length (tool_use_ids bs) \<Longrightarrow> ?thesis"
    by (simp add: tool_events_def length_tool_use_calls)
qed




section \<open>The claims\<close>



text \<open>
  C2. An inference call that raises is the last event of the run. When it is the first
  call, it is the only event and its exception reaches the caller. When it is the call
  of the second iteration, one tool round has been completed and the function returns
  the string \<open>Error in round 2: \<close> followed by the message of the exception, 2 being the
  counter plus one. When it is the final call, the function returns the string
  \<open>Error generating final response: \<close> followed by the message.
\<close>

theorem generate_response_inference_failure:
  assumes "generate_response self query h tls tm w = (res, s)"
    and "ApiCall ri p (Inl e) \<in> set (trace s)"
  shows "last (trace s) = ApiCall ri p (Inl e) \<and>
         (ri = ''Initial'' \<and> trace s = [ApiCall ri p (Inl e)] \<and> res = Inl e \<or>
          ri = ''Round 2'' \<and> round_count s = 1 \<and>
            res = Inr (''Error in round '' @ string_of_nat (round_count s + 1) @ '': '' @
                       str_exn e) \<and>
            res = Inr (''Error in round 2: '' @ str_exn e) \<or>
          ri = ''Final'' \<and> 1 \<le> round_count s \<and>
            res = Inr (''Error generating final response: '' @ str_exn e))"
  using assms(1)
proof (cases rule: generate_response_cases)
  case (first_raises e')
  then show ?thesis using assms(2) by simp
next
  case (first_terminal resp)
  then show ?thesis using assms(2) by simp
next
  case (round1_failed t resp1 outs1 rf)
  then have "rf = Inl e" "ri = ''Final''"
    "p = base_params self (msgs s) (build_system_content h)"
    using assms(2) by (auto simp: tool_events_no_api)
  then show ?thesis using round1_failed by (simp add: final_result_def)
next
  case (second_raises t resp1 outs1 e')
  then have "e' = e" "ri = ''Round 2''"
    "p = loop_params self tls (build_system_content h) (msgs s)"
    using assms(2) by (auto simp: tool_events_no_api)
  then show ?thesis using second_raises by (simp add: string_of_nat_2)
next
  case (second_terminal t resp1 outs1 resp2)
  then show ?thesis using assms(2) by (auto simp: tool_events_no_api)
next
  case (two_rounds t resp1 outs1 resp2 outs2 rf)
  then have "rf = Inl e" "ri = ''Final''"
    "p = base_params self (msgs s) (build_system_content h)"
    using assms(2) by (auto simp: tool_events_no_api)
  then show ?thesis using two_rounds by (simp add: final_result_def)
qed

theorem generate_response_inference_failure_witness:
  "ApiCall ''Round 2''
     (loop_params scripted_generator (Some catalog) SYSTEM_PROMPT
        [Message user (Str ''q''),
         Message assistant (Blocks (content outline_request)),
         Message user (Results [ToolResult ''tool_1'' ''outline''])])
     (Inl (Exception ''API down''))
     \<in> set (trace (snd (generate_response scripted_generator ''q'' None (Some catalog)
              (Some scripted_tools) script_second_call_fails))) \<and>
   fst (generate_response scripted_generator ''q'' None (Some catalog)
          (Some scripted_tools) script_second_call_fails) =
     Inr ''Error in round 2: API down''"
proof -
  let ?run = "generate_response scripted_generator ''q'' None (Some catalog)
      (Some scripted_tools) script_second_call_fails"
  let ?p = "loop_params scripted_generator (Some catalog) SYSTEM_PROMPT
        [Message user (Str ''q''),
         Message assistant (Blocks (content outline_request)),
         Message user (Results [ToolResult ''tool_1'' ''outline''])]"
  have run: "?run = (fst ?run, snd ?run)" by simp
  have ev: "ApiCall ''Round 2'' ?p (Inl (Exception ''API down'')) \<in> set (trace (snd ?run))"
    by (simp add: run_defs fixture_defs build_system_content_def)
  from generate_response_inference_failure [OF run ev] ev show ?thesis
    by (simp add: string_of_nat_2)
qed

lemma round_results_fields:
  assumes "length outs = length (tool_use_ids bs)"
  shows "map tool_use_id (round_results bs outs) = tool_use_ids bs"
    and "map result_content (round_results bs outs) = map result_text outs"
    and "length (round_results bs outs) = length (tool_use_ids bs)"
proof -
  have "length os = length ids \<Longrightarrow>
      map tool_use_id (map2 ToolResult ids os) = ids \<and>
      map result_content (map2 ToolResult ids os) = os" for ids os :: "string list"
    by (induction ids os rule: list_induct2') simp_all
  from this [of "map result_text outs" "tool_use_ids bs"] assms
  show "map tool_use_id (round_results bs outs) = tool_use_ids bs"
    and "map result_content (round_results bs outs) = map result_text outs"
    by (simp_all add: round_results_def)
  show "length (round_results bs outs) = length (tool_use_ids bs)"
    using assms by (simp add: round_results_def)
qed

lemma tool_events_position:
  assumes "ToolCall n inp out \<in> set (tool_events bs outs)"
    and "length outs = length (tool_use_ids bs)"
  shows "\<exists>k < length outs. tool_use_calls bs ! k = (n, inp) \<and> outs ! k = out \<and>
           round_results bs outs ! k = ToolResult (tool_use_ids bs ! k) (result_text out)"
proof -
  from assms(1) have "((n, inp), out) \<in> set (zip (tool_use_calls bs) outs)"
    by (auto simp: tool_events_def)
  then obtain k where k: "k < length outs" "k < length (tool_use_calls bs)"
    "tool_use_calls bs ! k = (n, inp)" "outs ! k = out"
    by (auto simp: set_zip)
  then have "round_results bs outs ! k = ToolResult (tool_use_ids bs ! k) (result_text out)"
    using assms(2) by (simp add: round_results_def)
  with k show ?thesis by blast
qed

lemma failed_round_messages:
  assumes "ToolCall n inp out \<in> set (tool_events bs outs)"
    and "length outs = length (tool_use_ids bs)"
  shows "round_messages bs outs =
           [Message assistant (Blocks bs), Message user (Results (round_results bs outs))]"
proof -
  from tool_events_position [OF assms] have "outs \<noteq> []" by auto
  then have "round_results bs outs \<noteq> []"
    using round_results_fields(3) [OF assms(2)] assms(2) by auto
  then show ?thesis by (simp add: round_messages_def)
qed

lemma tool_events_raised:
  "ToolCall n inp (Inl e) \<in> set (tool_events bs outs) \<Longrightarrow> raised outs"
  using tool_events_outcome [of n inp "Inl e" bs outs]
  by (auto simp: raised_def intro: bexI [of _ "Inl e"])

lemma final_result_not_raised: "\<not> isl (final_result rf)"
  by (simp add: final_result_def split: sum.splits)

lemma final_result_text: "content r = TextBlock t # bs \<Longrightarrow> final_result (Inr r) = Inr t"
  by (simp add: final_result_def)

text \<open>
  C3. When a tool dispatch raises, the run ends as follows. The round of that dispatch has
  dispatched every tool-invocation block of its response, in order; the messages end with
  the assistant message of the round and one user message holding one result per block,
  in which the result at the position of the failed dispatch carries the identifier of
  its block and the text \<open>Tool execution failed: \<close> followed by the message of the
  exception. After the dispatches of that round the trace holds exactly one more event,
  the final inference call, sent the messages without the catalog. The function returns
  a string, never an exception: the text of the first block of the final response when
  that is a text block.
\<close>

theorem generate_response_dispatch_failure:
  assumes "generate_response self query h tls tm w = (res, s)"
    and "ToolCall n inp (Inl e) \<in> set (trace s)"
  shows "\<exists>pre ri p resp outs rf k.
     trace s = pre @ ApiCall ri p (Inr resp) # tool_events (content resp) outs @
                 [ApiCall ''Final'' (base_params self (msgs s) (build_system_content h)) rf] \<and>
     length outs = length (tool_use_ids (content resp)) \<and>
     dispatches (tool_events (content resp) outs) = tool_use_calls (content resp) \<and>
     msgs s = messages p @
        [Message assistant (Blocks (content resp)),
         Message user (Results (round_results (content resp) outs))] \<and>
     map tool_use_id (round_results (content resp) outs) = tool_use_ids (content resp) \<and>
     k < length outs \<and> tool_use_calls (content resp) ! k = (n, inp) \<and> outs ! k = Inl e \<and>
     round_results (content resp) outs ! k =
       ToolResult (tool_use_ids (content resp) ! k) (''Tool execution failed: '' @ str_exn e) \<and>
     tools (base_params self (msgs s) (build_system_content h)) = None \<and>
     res = final_result rf \<and> \<not> isl res \<and>
     (\<forall>r t bs. rf = Inr r \<and> content r = TextBlock t # bs \<longrightarrow> res = Inr t)"
proof -
  let ?sys = "build_system_content h"
  have main: "?thesis"
    if tr: "trace s = pre @ ApiCall ri p (Inr resp) # tool_events (content resp) outs @
                 [ApiCall ''Final'' (base_params self (msgs s) ?sys) rf]"
      and len: "length outs = length (tool_use_ids (content resp))"
      and ev: "ToolCall n inp (Inl e) \<in> set (tool_events (content resp) outs)"
      and ms: "msgs s = messages p @ round_messages (content resp) outs"
      and res: "res = final_result rf"
    for pre ri p resp outs rf
  proof -
    from tool_events_position [OF ev len] obtain k where
      k: "k < length outs" "tool_use_calls (content resp) ! k = (n, inp)" "outs ! k = Inl e"
        "round_results (content resp) outs ! k =
           ToolResult (tool_use_ids (content resp) ! k) (''Tool execution failed: '' @ str_exn e)"
      by auto
    have m: "msgs s = messages p @
        [Message assistant (Blocks (content resp)),
         Message user (Results (round_results (content resp) outs))]"
      using ms failed_round_messages [OF ev len] by simp
    have r: "\<forall>r t bs. rf = Inr r \<and> content r = TextBlock t # bs \<longrightarrow> res = Inr t"
      using res by (auto simp: final_result_text)
    show ?thesis
      using tr len dispatches_tool_events [OF len] m round_results_fields(1) [OF len] k
        res final_result_not_raised [of rf] r
      by (intro exI [of _ pre] exI [of _ ri] exI [of _ p] exI [of _ resp] exI [of _ outs]
            exI [of _ rf] exI [of _ k])
         (simp add: base_params_fields)
  qed
  from assms(1) show ?thesis
  proof (cases rule: generate_response_cases)
    case (first_raises e')
    then show ?thesis using assms(2) by simp
  next
    case (first_terminal resp)
    then show ?thesis using assms(2) by simp
  next
    case (round1_failed t resp1 outs1 rf)
    then have ev: "ToolCall n inp (Inl e) \<in> set (tool_events (content resp1) outs1)"
      using assms(2) by auto
    show ?thesis
      using main [of "[]" "''Initial''"
          "loop_params self tls ?sys [Message user (Str query)]" resp1 outs1 rf]
        round1_failed ev
      by (simp add: loop_params_fields)
  next
    case (second_raises t resp1 outs1 e')
    then show ?thesis using assms(2) by (auto dest: tool_events_raised)
  next
    case (second_terminal t resp1 outs1 resp2)
    then show ?thesis using assms(2) by (auto dest: tool_events_raised)
  next
    case (two_rounds t resp1 outs1 resp2 outs2 rf)
    then have ev: "ToolCall n inp (Inl e) \<in> set (tool_events (content resp2) outs2)"
      using assms(2) by (auto dest: tool_events_raised)
    show ?thesis
      using main [of "ApiCall ''Initial''
            (loop_params self tls ?sys [Message user (Str query)]) (Inr resp1) #
            tool_events (content resp1) outs1" "''Round 2''"
          "loop_params self tls ?sys
             (Message user (Str query) # round_messages (content resp1) outs1)"
          resp2 outs2 rf]
        two_rounds ev
      by (simp add: loop_params_fields)
  qed
qed

theorem generate_response_dispatch_failure_witness:
  "ToolCall ''search_course_content'' [(''query'', ''lesson 4'')] (Inl (Exception ''Tool failed''))
     \<in> set (trace (snd (generate_response scripted_generator ''q'' None (Some catalog)
              (Some scripted_tools) script_dispatch_fails))) \<and>
   \<not> isl (fst (generate_response scripted_generator ''q'' None (Some catalog)
              (Some scripted_tools) script_dispatch_fails))"
proof -
  let ?run = "generate_response scripted_generator ''q'' None (Some catalog)
      (Some scripted_tools) script_dispatch_fails"
  have run: "?run = (fst ?run, snd ?run)" by simp
  have ev: "ToolCall ''search_course_content'' [(''query'', ''lesson 4'')]
      (Inl (Exception ''Tool failed'')) \<in> set (trace (snd ?run))"
    by (simp add: run_defs fixture_defs build_system_content_def)
  from generate_response_dispatch_failure [OF run ev] ev show ?thesis by blast
qed

subsection \<open>Locating an inference call in a trace\<close>

lemma split_at_head:
  assumes "a # rest = pre @ x # post"
  shows "pre = [] \<and> x = a \<and> post = rest \<or> (\<exists>pre'. pre = a # pre' \<and> rest = pre' @ x # post)"
  using assms by (cases pre) auto

lemma split_after_tool_events:
  assumes "tool_events bs outs @ a # rest = pre @ ApiCall ri p r # post"
  shows "pre = tool_events bs outs \<and> a = ApiCall ri p r \<and> post = rest \<or>
         (\<exists>pre'. pre = tool_events bs outs @ a # pre' \<and> rest = pre' @ ApiCall ri p r # post)"
proof -
  from assms obtain us where
    "tool_events bs outs = pre @ us \<and> us @ a # rest = ApiCall ri p r # post \<or>
     tool_events bs outs @ us = pre \<and> a # rest = us @ ApiCall ri p r # post"
    by (auto simp: append_eq_append_conv2)
  then show ?thesis
  proof
    assume l: "tool_events bs outs = pre @ us \<and> us @ a # rest = ApiCall ri p r # post"
    show ?thesis
    proof (cases us)
      case Nil
      with l show ?thesis by simp
    next
      case (Cons u us')
      with l have "ApiCall ri p r \<in> set (tool_events bs outs)" by simp
      then show ?thesis by (simp add: tool_events_no_api)
    qed
  next
    assume r: "tool_events bs outs @ us = pre \<and> a # rest = us @ ApiCall ri p r # post"
    then show ?thesis by (cases us) auto
  qed
qed

text \<open>
  A response of the loop that asks for tools, with a tool manager given, is followed in
  the trace by the dispatches of its round and then by another inference call, which is
  sent the messages of the first one extended by those of the round.
\<close>

lemma round_then_call:
  assumes "generate_response self query h tls tm w = (res, s)"
    and "trace s = pre @ ApiCall ri p (Inr resp) # post"
    and "ri \<noteq> ''Final''" and "stop_reason resp = ''tool_use''" and "tm \<noteq> None"
  shows "\<exists>outs ri' p' r' post'.
     post = tool_events (content resp) outs @ ApiCall ri' p' r' # post' \<and>
     length outs = length (tool_use_ids (content resp)) \<and>
     messages p' = messages p @ round_messages (content resp) outs \<and>
     (ri = ''Initial'' \<and> ri' = ''Round 2'' \<and> \<not> raised outs \<or>
      ri' = ''Final'' \<and> post' = [] \<and> messages p' = msgs s \<and> tools p' = None)"
proof -
  let ?sys = "build_system_content h"
  let ?p0 = "loop_params self tls ?sys [Message user (Str query)]"
  from assms(1) show ?thesis
  proof (cases rule: generate_response_cases)
    case (first_raises e)
    then have "ApiCall ''Initial'' ?p0 (Inl e) # [] = pre @ ApiCall ri p (Inr resp) # post"
      using assms(2) by simp
    from split_at_head [OF this] show ?thesis by auto
  next
    case (first_terminal resp')
    then have "ApiCall ''Initial'' ?p0 (Inr resp') # [] = pre @ ApiCall ri p (Inr resp) # post"
      using assms(2) by simp
    from split_at_head [OF this] show ?thesis
      using first_terminal(1) assms(4,5) by auto
  next
    case (round1_failed t resp1 outs1 rf)
    let ?pf = "base_params self (msgs s) ?sys"
    from round1_failed(8) assms(2)
    have "ApiCall ''Initial'' ?p0 (Inr resp1) #
        (tool_events (content resp1) outs1 @ [ApiCall ''Final'' ?pf rf]) =
        pre @ ApiCall ri p (Inr resp) # post"
      by simp
    from split_at_head [OF this] show ?thesis
    proof
      assume "pre = [] \<and> ApiCall ri p (Inr resp) = ApiCall ''Initial'' ?p0 (Inr resp1) \<and>
          post = tool_events (content resp1) outs1 @ [ApiCall ''Final'' ?pf rf]"
      then show ?thesis
        using round1_failed(3,7)
        by (intro exI [of _ outs1] exI [of _ "''Final''"] exI [of _ ?pf] exI [of _ rf]
              exI [of _ "[]"])
           (auto simp: loop_params_fields base_params_fields)
    next
      assume "\<exists>pre'. pre = ApiCall ''Initial'' ?p0 (Inr resp1) # pre' \<and>
          tool_events (content resp1) outs1 @ [ApiCall ''Final'' ?pf rf] =
          pre' @ ApiCall ri p (Inr resp) # post"
      then obtain pre' where "tool_events (content resp1) outs1 @ [ApiCall ''Final'' ?pf rf] =
          pre' @ ApiCall ri p (Inr resp) # post"
        by blast
      from split_after_tool_events [OF this] show ?thesis
        using assms(3) by auto
    qed
  next
    case (second_raises t resp1 outs1 e)
    let ?p1 = "loop_params self tls ?sys (msgs s)"
    from second_raises(8) assms(2)
    have "ApiCall ''Initial'' ?p0 (Inr resp1) #
        (tool_events (content resp1) outs1 @ [ApiCall ''Round 2'' ?p1 (Inl e)]) =
        pre @ ApiCall ri p (Inr resp) # post"
      by simp
    from split_at_head [OF this] show ?thesis
    proof
      assume "pre = [] \<and> ApiCall ri p (Inr resp) = ApiCall ''Initial'' ?p0 (Inr resp1) \<and>
          post = tool_events (content resp1) outs1 @ [ApiCall ''Round 2'' ?p1 (Inl e)]"
      then show ?thesis
        using second_raises(3,4,7)
        by (intro exI [of _ outs1] exI [of _ "''Round 2''"] exI [of _ ?p1] exI [of _ "Inl e"]
              exI [of _ "[]"])
           (auto simp: loop_params_fields)
    next
      assume "\<exists>pre'. pre = ApiCall ''Initial'' ?p0 (Inr resp1) # pre' \<and>
          tool_events (content resp1) outs1 @ [ApiCall ''Round 2'' ?p1 (Inl e)] =
          pre' @ ApiCall ri p (Inr resp) # post"
      then obtain pre' where "tool_events (content resp1) outs1 @
          [ApiCall ''Round 2'' ?p1 (Inl e)] = pre' @ ApiCall ri p (Inr resp) # post"
        by blast
      from split_after_tool_events [OF this] show ?thesis by auto
    qed
  next
    case (second_terminal t resp1 outs1 resp2)
    let ?p1 = "loop_params self tls ?sys (msgs s)"
    from second_terminal(9) assms(2)
    have "ApiCall ''Initial'' ?p0 (Inr resp1) #
        (tool_events (content resp1) outs1 @ [ApiCall ''Round 2'' ?p1 (Inr resp2)]) =
        pre @ ApiCall ri p (Inr resp) # post"
      by simp
    from split_at_head [OF this] show ?thesis
    proof
      assume "pre = [] \<and> ApiCall ri p (Inr resp) = ApiCall ''Initial'' ?p0 (Inr resp1) \<and>
          post = tool_events (content resp1) outs1 @ [ApiCall ''Round 2'' ?p1 (Inr resp2)]"
      then show ?thesis
        using second_terminal(3,4,8)
        by (intro exI [of _ outs1] exI [of _ "''Round 2''"] exI [of _ ?p1]
              exI [of _ "Inr resp2"] exI [of _ "[]"])
           (auto simp: loop_params_fields)
    next
      assume "\<exists>pre'. pre = ApiCall ''Initial'' ?p0 (Inr resp1) # pre' \<and>
          tool_events (content resp1) outs1 @ [ApiCall ''Round 2'' ?p1 (Inr resp2)] =
          pre' @ ApiCall ri p (Inr resp) # post"
      then obtain pre' where "tool_events (content resp1) outs1 @
          [ApiCall ''Round 2'' ?p1 (Inr resp2)] = pre' @ ApiCall ri p (Inr resp) # post"
        by blast
      from split_after_tool_events [OF this] show ?thesis
        using second_terminal(5) assms(4) by auto
    qed
  next
    case (two_rounds t resp1 outs1 resp2 outs2 rf)
    let ?m1 = "Message user (Str query) # round_messages (content resp1) outs1"
    let ?p1 = "loop_params self tls ?sys ?m1"
    let ?pf = "base_params self (msgs s) ?sys"
    from two_rounds(10) assms(2)
    have "ApiCall ''Initial'' ?p0 (Inr resp1) #
        (tool_events (content resp1) outs1 @ ApiCall ''Round 2'' ?p1 (Inr resp2) #
         tool_events (content resp2) outs2 @ [ApiCall ''Final'' ?pf rf]) =
        pre @ ApiCall ri p (Inr resp) # post"
      by simp
    from split_at_head [OF this] show ?thesis
    proof
      assume "pre = [] \<and> ApiCall ri p (Inr resp) = ApiCall ''Initial'' ?p0 (Inr resp1) \<and>
          post = tool_events (content resp1) outs1 @ ApiCall ''Round 2'' ?p1 (Inr resp2) #
            tool_events (content resp2) outs2 @ [ApiCall ''Final'' ?pf rf]"
      then show ?thesis
        using two_rounds(3,4)
        by (intro exI [of _ outs1] exI [of _ "''Round 2''"] exI [of _ ?p1]
              exI [of _ "Inr resp2"]
              exI [of _ "tool_events (content resp2) outs2 @ [ApiCall ''Final'' ?pf rf]"])
           (auto simp: loop_params_fields)
    next
      assume "\<exists>pre'. pre = ApiCall ''Initial'' ?p0 (Inr resp1) # pre' \<and>
          tool_events (content resp1) outs1 @ ApiCall ''Round 2'' ?p1 (Inr resp2) #
            tool_events (content resp2) outs2 @ [ApiCall ''Final'' ?pf rf] =
          pre' @ ApiCall ri p (Inr resp) # post"
      then obtain pre' where "tool_events (content resp1) outs1 @
          ApiCall ''Round 2'' ?p1 (Inr resp2) #
            (tool_events (content resp2) outs2 @ [ApiCall ''Final'' ?pf rf]) =
          pre' @ ApiCall ri p (Inr resp) # post"
        by auto
      from split_after_tool_events [OF this] show ?thesis
      proof
        assume "pre' = tool_events (content resp1) outs1 \<and>
            ApiCall ''Round 2'' ?p1 (Inr resp2) = ApiCall ri p (Inr resp) \<and>
            post = tool_events (content resp2) outs2 @ [ApiCall ''Final'' ?pf rf]"
        then show ?thesis
          using two_rounds(6,9)
          by (intro exI [of _ outs2] exI [of _ "''Final''"] exI [of _ ?pf] exI [of _ rf]
                exI [of _ "[]"])
             (auto simp: loop_params_fields base_params_fields)
      next
        assume "\<exists>pre''. pre' = tool_events (content resp1) outs1 @
              ApiCall ''Round 2'' ?p1 (Inr resp2) # pre'' \<and>
            tool_events (content resp2) outs2 @ [ApiCall ''Final'' ?pf rf] =
            pre'' @ ApiCall ri p (Inr resp) # post"
        then obtain pre'' where "tool_events (content resp2) outs2 @ [ApiCall ''Final'' ?pf rf] =
            pre'' @ ApiCall ri p (Inr resp) # post"
          by blast
        from split_after_tool_events [OF this] show ?thesis
          using assms(3) by auto
      qed
    qed
  qed
qed

text \<open>
  C4. In every tool round (a response of the loop that asks for tools, with a tool
  manager given), the events that follow the inference call are the dispatches of the
  tool-invocation blocks of the response, one per block and in their order, and then
  another inference call. There is one tool result per block, the identifiers of the
  results are those of the blocks in the same order, and their contents are the texts
  written for the outcomes of the dispatches. The next inference call is sent the
  messages of the round's call, then the assistant message with the content of the
  response, then, when there is a tool-invocation block, one user message with all the
  results.
\<close>

theorem tool_round_results:
  assumes "generate_response self query h tls tm w = (res, s)"
    and "trace s = pre @ ApiCall ri p (Inr resp) # post"
    and "ri \<noteq> ''Final''" and "stop_reason resp = ''tool_use''" and "tm \<noteq> None"
  shows "\<exists>outs ri' p' r' post'.
     post = tool_events (content resp) outs @ ApiCall ri' p' r' # post' \<and>
     length outs = length (tool_use_ids (content resp)) \<and>
     dispatches (tool_events (content resp) outs) = tool_use_calls (content resp) \<and>
     length (round_results (content resp) outs) = length (tool_use_ids (content resp)) \<and>
     map tool_use_id (round_results (content resp) outs) = tool_use_ids (content resp) \<and>
     map result_content (round_results (content resp) outs) = map result_text outs \<and>
     messages p' =
       messages p @ Message assistant (Blocks (content resp)) #
         (if tool_use_ids (content resp) = [] then []
          else [Message user (Results (round_results (content resp) outs))])"
proof -
  from round_then_call [OF assms] obtain outs ri' p' r' post' where
    post: "post = tool_events (content resp) outs @ ApiCall ri' p' r' # post'" and
    len: "length outs = length (tool_use_ids (content resp))" and
    ms: "messages p' = messages p @ round_messages (content resp) outs"
    by blast
  have "messages p' =
       messages p @ Message assistant (Blocks (content resp)) #
         (if tool_use_ids (content resp) = [] then []
          else [Message user (Results (round_results (content resp) outs))])"
    using ms round_results_Nil_iff [OF len] by (simp add: round_messages_def)
  then show ?thesis
    using post len dispatches_tool_events [OF len] round_results_fields [OF len]
    by (intro exI [of _ outs] exI [of _ ri'] exI [of _ p'] exI [of _ r'] exI [of _ post'])
       simp
qed

theorem tool_round_results_witness:
  "trace (snd (generate_response scripted_generator ''q'' None (Some catalog)
            (Some scripted_tools) script_two_rounds)) =
     [] @ ApiCall ''Initial''
            (loop_params scripted_generator (Some catalog) SYSTEM_PROMPT
               [Message user (Str ''q'')])
            (Inr outline_request) #
          tl (trace (snd (generate_response scripted_generator ''q'' None (Some catalog)
                (Some scripted_tools) script_two_rounds))) \<and>
   stop_reason outline_request = ''tool_use'' \<and>
   (\<exists>outs ri' p' r' post'.
      tl (trace (snd (generate_response scripted_generator ''q'' None (Some catalog)
            (Some scripted_tools) script_two_rounds))) =
        tool_events (content outline_request) outs @ ApiCall ri' p' r' # post' \<and>
      map tool_use_id (round_results (content outline_request) outs) =
        tool_use_ids (content outline_request))"
proof -
  let ?run = "generate_response scripted_generator ''q'' None (Some catalog)
      (Some scripted_tools) script_two_rounds"
  let ?p0 = "loop_params scripted_generator (Some catalog) SYSTEM_PROMPT
      [Message user (Str ''q'')]"
  have run: "?run = (fst ?run, snd ?run)" by simp
  have tr: "trace (snd ?run) =
      [] @ ApiCall ''Initial'' ?p0 (Inr outline_request) # tl (trace (snd ?run))"
    by (simp add: run_defs fixture_defs build_system_content_def)
  have ri: "''Initial'' \<noteq> ''Final''" by simp
  have sr: "stop_reason outline_request = ''tool_use''"
    by (simp add: outline_request_def)
  have tm: "Some scripted_tools \<noteq> None" by simp
  from tool_round_results [OF run tr ri sr tm] tr sr show ?thesis by blast
qed

text \<open>
  A first response that does not start a tool round ends the run: the result is the read
  of \<open>content[0].text\<close>, raised to the caller when it fails.
\<close>

lemma first_response_terminal:
  assumes "client self (loop_params self tls (build_system_content h)
             [Message user (Str query)]) w = (Inr resp, w')"
    and "\<not> (stop_reason resp = ''tool_use'' \<and> tm \<noteq> None)"
  shows "generate_response self query h tls tm w =
           (first_text (content resp),
            \<lparr>msgs = [Message user (Str query)], round_count = 0, world = w',
             trace = [ApiCall ''Initial''
                        (loop_params self tls (build_system_content h)
                           [Message user (Str query)])
                        (Inr resp)]\<rparr>)"
proof -
  let ?sys = "build_system_content h"
  let ?s0 = "initial_state query w :: 'a state"
  let ?s1 = "\<lparr>msgs = [Message user (Str query)], round_count = 0, world = w',
             trace = [ApiCall ''Initial'' (loop_params self tls ?sys [Message user (Str query)])
                        (Inr resp)]\<rparr>"
  have "(if stop_reason resp = ''tool_use'' then tm else None) = None"
    using assms(2) by auto
  then have body: "loop_body self tls tm ?sys ?s0 =
      (case first_text (content resp) of
         Inr t \<Rightarrow> Return (Inr t) ?s1
       | Inl e \<Rightarrow> Return (Inl e) ?s1)"
    using assms(1)
    by (simp add: loop_body_def call_anthropic_api_def initial_state_def loop_round_info_def
          handle_api_error_def split: sum.splits)
  have rc: "round_count ?s0 = 0"
    by (simp add: initial_state_def)
  have "loop self tls tm ?sys ?s0 = (Some (first_text (content resp)), ?s1)"
    by (subst loop.simps) (simp add: body rc max_rounds_def split: sum.splits)
  then show ?thesis
    by (simp add: generate_response_def Let_def)
qed

text \<open>
  C5. When the client answers the first request with a response whose stop reason is not
  \<open>tool_use\<close>, then, whatever the catalog and the tool manager, the run makes this one
  inference call and nothing else, the counter stays 0, and the result is the read of
  \<open>content[0].text\<close>: the text of the first block, unchanged, when that block is a
  text block.
\<close>

theorem generate_response_no_tool_use:
  assumes "client self (loop_params self tls (build_system_content h)
             [Message user (Str query)]) w = (Inr resp, w')"
    and "stop_reason resp \<noteq> ''tool_use''"
  shows "generate_response self query h tls tm w =
           (first_text (content resp),
            \<lparr>msgs = [Message user (Str query)], round_count = 0, world = w',
             trace = [ApiCall ''Initial''
                        (loop_params self tls (build_system_content h)
                           [Message user (Str query)])
                        (Inr resp)]\<rparr>) \<and>
         (\<forall>t bs. content resp = TextBlock t # bs \<longrightarrow>
            fst (generate_response self query h tls tm w) = Inr t) \<and>
         length (api_calls (trace (snd (generate_response self query h tls tm w)))) = 1 \<and>
         dispatches (trace (snd (generate_response self query h tls tm w))) = []"
  using first_response_terminal [OF assms(1), of tm] assms(2) by simp

theorem generate_response_no_tool_use_witness:
  "stop_reason text_response \<noteq> ''tool_use'' \<and>
   fst (generate_response scripted_generator ''q'' None (Some catalog) (Some scripted_tools)
          ([Inr text_response], [])) = Inr ''Final answer''"
proof -
  have c: "client scripted_generator
      (loop_params scripted_generator (Some catalog) (build_system_content None)
         [Message user (Str ''q'')]) ([Inr text_response], []) = (Inr text_response, ([], []))"
    by (simp add: scripted_generator_def scripted_client_def)
  have sr: "stop_reason text_response \<noteq> ''tool_use''"
    by (simp add: text_response_def)
  from generate_response_no_tool_use [where tm = "Some scripted_tools", OF c sr] sr
  show ?thesis by (simp add: text_response_def)
qed

text \<open>
  C6, as stated: a response that asks for tools when no tool manager was given makes the
  function return the first text block available in the response. It fails for a
  response whose first block is a tool-invocation block and whose second block is a
  text block: the read of \<open>content[0].text\<close> raises, and the exception reaches the
  caller.
\<close>

theorem tool_use_without_manager_counterexample:
  "stop_reason tool_first_response = ''tool_use'' \<and>
   first_text_block_available (content tool_first_response) = Some ''answer'' \<and>
   fst (generate_response scripted_generator ''q'' None (Some catalog) None
          ([Inr tool_first_response], [])) = Inl AttributeError"
  by (simp add: run_defs fixture_defs build_system_content_def)

text \<open>
  C6, amended. A response that asks for tools when no tool manager was given ends the
  run: this one inference call is the only event, no tool is dispatched, and the result
  is the read of \<open>content[0].text\<close>, that is the text of the first block when it is a
  text block, and otherwise an exception that reaches the caller (\<open>IndexError\<close> for an
  empty content, \<open>AttributeError\<close> for a first block that is a tool invocation).
\<close>

theorem generate_response_tool_use_without_manager:
  assumes "client self (loop_params self tls (build_system_content h)
             [Message user (Str query)]) w = (Inr resp, w')"
    and "stop_reason resp = ''tool_use''"
  shows "generate_response self query h tls None w =
           (first_text (content resp),
            \<lparr>msgs = [Message user (Str query)], round_count = 0, world = w',
             trace = [ApiCall ''Initial''
                        (loop_params self tls (build_system_content h)
                           [Message user (Str query)])
                        (Inr resp)]\<rparr>) \<and>
         (\<forall>t bs. content resp = TextBlock t # bs \<longrightarrow>
            fst (generate_response self query h tls None w) = Inr t) \<and>
         (content resp = [] \<longrightarrow>
            fst (generate_response self query h tls None w) = Inl IndexError) \<and>
         (\<forall>i n inp bs. content resp = ToolUseBlock i n inp # bs \<longrightarrow>
            fst (generate_response self query h tls None w) = Inl AttributeError) \<and>
         length (api_calls (trace (snd (generate_response self query h tls None w)))) = 1 \<and>
         dispatches (trace (snd (generate_response self query h tls None w))) = []"
  using first_response_terminal [OF assms(1), of None] by simp

theorem generate_response_tool_use_without_manager_witness:
  "stop_reason tool_first_response = ''tool_use'' \<and>
   generate_response scripted_generator ''q'' None (Some catalog) None
     ([Inr tool_first_response], []) =
     (Inl AttributeError,
      \<lparr>msgs = [Message user (Str ''q'')], round_count = 0, world = ([], []),
       trace = [ApiCall ''Initial''
                  (loop_params scripted_generator (Some catalog) (build_system_content None)
                     [Message user (Str ''q'')])
                  (Inr tool_first_response)]\<rparr>)"
proof -
  have c: "client scripted_generator
      (loop_params scripted_generator (Some catalog) (build_system_content None)
         [Message user (Str ''q'')]) ([Inr tool_first_response], []) =
      (Inr tool_first_response, ([], []))"
    by (simp add: scripted_generator_def scripted_client_def)
  have sr: "stop_reason tool_first_response = ''tool_use''"
    by (simp add: tool_first_response_def)
  from generate_response_tool_use_without_manager [OF c sr] sr
  show ?thesis by (simp add: tool_first_response_def)
qed

text \<open>
  C7. Without a history the system content is the preamble; with a non-empty history it
  is the preamble, an empty line, the line \<open>Previous conversation:\<close> and the history.
  In every run each inference call is sent that system content, and the first call,
  labelled \<open>Initial\<close>, is sent the single user message holding the query.
\<close>

theorem system_content_and_first_message:
  assumes "generate_response self query h tls tm w = (res, s)"
  shows "build_system_content None = SYSTEM_PROMPT \<and>
         (\<forall>hist. hist \<noteq> [] \<longrightarrow>
            build_system_content (Some hist) =
              SYSTEM_PROMPT @ NL @ NL @ ''Previous conversation:'' @ NL @ hist) \<and>
         msgs (initial_state query w) = [Message user (Str query)] \<and>
         api_calls (trace s) \<noteq> [] \<and>
         hd (api_calls (trace s)) =
           (''Initial'', loop_params self tls (build_system_content h) [Message user (Str query)]) \<and>
         messages (snd (hd (api_calls (trace s)))) = [Message user (Str query)] \<and>
         (\<forall>c \<in> set (api_calls (trace s)). system (snd c) = build_system_content h)"
proof -
  have a: "api_calls (trace s) \<noteq> [] \<and>
      hd (api_calls (trace s)) =
        (''Initial'', loop_params self tls (build_system_content h) [Message user (Str query)])"
    using assms by (cases rule: generate_response_cases) simp_all
  then have "messages (snd (hd (api_calls (trace s)))) = [Message user (Str query)]"
    by (simp add: loop_params_fields)
  with a generate_response_system [OF assms] show ?thesis
    by (simp add: build_system_content_def initial_state_def)
qed

theorem system_content_and_first_message_witness:
  "build_system_content (Some ''User: hi'') =
     SYSTEM_PROMPT @ NL @ NL @ ''Previous conversation:'' @ NL @ ''User: hi'' \<and>
   list_all
     (\<lambda>c. system (snd c) = SYSTEM_PROMPT @ NL @ NL @ ''Previous conversation:'' @ NL @ ''User: hi'')
     (api_calls (trace (snd (generate_response scripted_generator ''q''
        (Some ''User: hi'') (Some catalog) (Some scripted_tools) script_two_rounds)))) \<and>
   messages (snd (hd (api_calls (trace (snd (generate_response scripted_generator ''q''
        (Some ''User: hi'') (Some catalog) (Some scripted_tools) script_two_rounds)))))) =
     [Message user (Str ''q'')]"
proof -
  let ?run = "generate_response scripted_generator ''q'' (Some ''User: hi'') (Some catalog)
      (Some scripted_tools) script_two_rounds"
  have run: "?run = (fst ?run, snd ?run)" by simp
  have ne: "''User: hi'' \<noteq> []" by simp
  from system_content_and_first_message [OF run] ne
  have "build_system_content (Some ''User: hi'') =
      SYSTEM_PROMPT @ NL @ NL @ ''Previous conversation:'' @ NL @ ''User: hi''"
    by blast
  with system_content_and_first_message [OF run] show ?thesis
    by (simp add: list_all_iff loop_params_fields)
qed

text \<open>
  C10. An empty conversation history is treated as no history: the system content is the
  preamble alone, the whole run is the one of a call without history, and every
  inference call is sent the preamble verbatim as system content.
\<close>

theorem empty_history_as_no_history:
  "build_system_content (Some []) = SYSTEM_PROMPT \<and>
   build_system_content (Some []) = build_system_content None \<and>
   generate_response self query (Some []) tls tm w = generate_response self query None tls tm w \<and>
   (\<forall>c \<in> set (api_calls (trace (snd (generate_response self query (Some []) tls tm w)))).
      system (snd c) = SYSTEM_PROMPT)"
proof -
  have a: "build_system_content (Some []) = SYSTEM_PROMPT"
    "build_system_content (Some []) = build_system_content None"
    by (simp_all add: build_system_content_def)
  have b: "generate_response self query (Some []) tls tm w =
      generate_response self query None tls tm w"
    by (simp add: generate_response_def Let_def build_system_content_def)
  have "generate_response self query (Some []) tls tm w =
      (fst (generate_response self query (Some []) tls tm w),
       snd (generate_response self query (Some []) tls tm w))"
    by simp
  from generate_response_system [OF this] a b show ?thesis by simp
qed

theorem empty_history_as_no_history_witness:
  "map (\<lambda>c. system (snd c))
     (api_calls (trace (snd (generate_response scripted_generator ''q'' (Some [])
        (Some catalog) (Some scripted_tools) script_two_rounds)))) \<noteq> [] \<and>
   list_all (\<lambda>c. system (snd c) = SYSTEM_PROMPT)
     (api_calls (trace (snd (generate_response scripted_generator ''q'' (Some [])
        (Some catalog) (Some scripted_tools) script_two_rounds))))"
proof -
  let ?run = "generate_response scripted_generator ''q'' (Some [])
        (Some catalog) (Some scripted_tools) script_two_rounds"
  have "api_calls (trace (snd ?run)) \<noteq> []"
    by (simp add: run_defs fixture_defs build_system_content_def)
  with empty_history_as_no_history
    [of scripted_generator "''q''" "Some catalog" "Some scripted_tools" script_two_rounds]
  show ?thesis by (simp add: list_all_iff)
qed

text \<open>
  C8. A run whose last inference call succeeded returns through the read of
  \<open>content[0].text\<close> of that response, on the no-tool return of the loop as on the
  final return, and nothing checks the content before the read. The read is well-defined
  exactly when the content is not empty and its first block is a text block, and then
  that text is the result. For any other response the read raises: \<open>IndexError\<close> for
  an empty content, \<open>AttributeError\<close> for a first block that is a tool invocation.
  What becomes of the raised exception depends on the path: on the first call it reaches
  the caller; on the second call the function returns \<open>Error in round 2: \<close> followed
  by its message; on the final call the function returns
  \<open>Error generating final response: \<close> followed by its message.
\<close>

theorem first_text_extraction:
  assumes "generate_response self query h tls tm w = (res, s)"
    and "last (trace s) = ApiCall ri p (Inr resp)"
  shows "(isl (first_text (content resp)) \<longleftrightarrow>
            content resp = [] \<or> (\<exists>i n inp bs. content resp = ToolUseBlock i n inp # bs)) \<and>
         (\<forall>t. first_text (content resp) = Inr t \<longleftrightarrow> (\<exists>bs. content resp = TextBlock t # bs)) \<and>
         (\<forall>t bs. content resp = TextBlock t # bs \<longrightarrow> res = Inr t) \<and>
         (\<forall>e. first_text (content resp) = Inl e \<longrightarrow>
            ri = ''Initial'' \<and> res = Inl e \<or>
            ri = ''Round 2'' \<and> res = Inr (''Error in round 2: '' @ str_exn e) \<or>
            ri = ''Final'' \<and> res = Inr (''Error generating final response: '' @ str_exn e))"
proof -
  have a: "isl (first_text bs) \<longleftrightarrow> bs = [] \<or> (\<exists>i n inp bs'. bs = ToolUseBlock i n inp # bs')"
    for bs by (cases bs rule: first_text.cases) simp_all
  have b: "first_text bs = Inr t \<longleftrightarrow> (\<exists>bs'. bs = TextBlock t # bs')" for bs t
    by (cases bs rule: first_text.cases) auto
  have c: "(\<forall>t bs. content resp = TextBlock t # bs \<longrightarrow> res = Inr t) \<and>
         (\<forall>e. first_text (content resp) = Inl e \<longrightarrow>
            ri = ''Initial'' \<and> res = Inl e \<or>
            ri = ''Round 2'' \<and> res = Inr (''Error in round 2: '' @ str_exn e) \<or>
            ri = ''Final'' \<and> res = Inr (''Error generating final response: '' @ str_exn e))"
    using assms(1)
  proof (cases rule: generate_response_cases)
    case (first_raises e)
    then show ?thesis using assms(2) by simp
  next
    case (first_terminal resp')
    then show ?thesis using assms(2) by auto
  next
    case (round1_failed t resp1 outs1 rf)
    then have "rf = Inr resp" "ri = ''Final''" using assms(2) by simp_all
    then show ?thesis using round1_failed(5) by (auto simp: final_result_def)
  next
    case (second_raises t resp1 outs1 e)
    then show ?thesis using assms(2) by simp
  next
    case (second_terminal t resp1 outs1 resp2)
    then have "resp2 = resp" "ri = ''Round 2''" using assms(2) by simp_all
    then show ?thesis using second_terminal(6) by auto
  next
    case (two_rounds t resp1 outs1 resp2 outs2 rf)
    then have "rf = Inr resp" "ri = ''Final''" using assms(2) by simp_all
    then show ?thesis using two_rounds(7) by (auto simp: final_result_def)
  qed
  from a [of "content resp"] b [of "content resp"] c show ?thesis by blast
qed

theorem first_text_extraction_witness:
  "last (trace (snd (generate_response scripted_generator ''q'' None (Some catalog)
           (Some scripted_tools) script_empty_final))) =
     ApiCall ''Final''
       (base_params scripted_generator
          (msgs (snd (generate_response scripted_generator ''q'' None (Some catalog)
             (Some scripted_tools) script_empty_final))) SYSTEM_PROMPT)
       (Inr empty_response) \<and>
   first_text (content empty_response) = Inl IndexError \<and>
   fst (generate_response scripted_generator ''q'' None (Some catalog)
          (Some scripted_tools) script_empty_final) =
     Inr (''Error generating final response: '' @ str_exn IndexError)"
proof -
  let ?run = "generate_response scripted_generator ''q'' None (Some catalog)
      (Some scripted_tools) script_empty_final"
  have run: "?run = (fst ?run, snd ?run)" by simp
  have l: "last (trace (snd ?run)) =
      ApiCall ''Final'' (base_params scripted_generator (msgs (snd ?run)) SYSTEM_PROMPT)
        (Inr empty_response)"
    by (simp add: run_defs fixture_defs build_system_content_def)
  have f: "first_text (content empty_response) = Inl IndexError"
    by (simp add: empty_response_def)
  have fin: "''Final'' \<noteq> ''Initial''" "''Final'' \<noteq> ''Round 2''" by simp_all
  from first_text_extraction [OF run l] f fin l show ?thesis by blast
qed

lemma execute_blocks_no_tool_use:
  "tool_use_ids bs = [] \<Longrightarrow> execute_blocks tm bs acc = acc"
  by (induction bs arbitrary: acc rule: tool_use_ids.induct) simp_all

lemma bare_round:
  assumes "client self (loop_params self tls sys (msgs s)) (world s) = (Inr resp, w')"
    and "stop_reason resp = ''tool_use''" and "tool_use_ids (content resp) = []"
  shows "loop_body self tls (Some t) sys s =
           Continue (s\<lparr>msgs := msgs s @ [Message assistant (Blocks (content resp))],
                       round_count := Suc (round_count s),
                       world := w',
                       trace := trace s @
                         [ApiCall (loop_round_info (round_count s))
                            (loop_params self tls sys (msgs s)) (Inr resp)]\<rparr>)"
  using assms
  by (simp add: loop_body_def call_anthropic_api_def tool_round_def Let_def
        execute_blocks_no_tool_use)

text \<open>
  C9. An iteration whose response asks for tools, with a tool manager given, but holds no
  tool-invocation block, increments the counter, appends the assistant message and no
  other message, dispatches nothing, and continues the loop. When the first two
  responses of a run are of that kind, the run makes three inference calls: the two of
  the loop, then the final call without the catalog, sent the query and the two
  assistant messages; the counter ends at 2 and the result is that of the final call.
\<close>

theorem tool_round_without_tool_blocks:
  assumes "stop_reason r1 = ''tool_use''" and "tool_use_ids (content r1) = []"
  shows "(\<forall>s w'. client self (loop_params self tls sys (msgs s)) (world s) = (Inr r1, w') \<longrightarrow>
            loop_body self tls (Some t) sys s =
              Continue (s\<lparr>msgs := msgs s @ [Message assistant (Blocks (content r1))],
                          round_count := Suc (round_count s),
                          world := w',
                          trace := trace s @
                            [ApiCall (loop_round_info (round_count s))
                               (loop_params self tls sys (msgs s)) (Inr r1)]\<rparr>)) \<and>
         (\<forall>w w1 r2 w2 rf w3.
            client self (loop_params self tls (build_system_content h)
               [Message user (Str query)]) w = (Inr r1, w1) \<and>
            client self (loop_params self tls (build_system_content h)
               [Message user (Str query), Message assistant (Blocks (content r1))]) w1 =
              (Inr r2, w2) \<and>
            stop_reason r2 = ''tool_use'' \<and> tool_use_ids (content r2) = [] \<and>
            client self (base_params self
               [Message user (Str query), Message assistant (Blocks (content r1)),
                Message assistant (Blocks (content r2))] (build_system_content h)) w2 =
              (rf, w3) \<longrightarrow>
            generate_response self query h tls (Some t) w =
              (final_result rf,
               \<lparr>msgs = [Message user (Str query), Message assistant (Blocks (content r1)),
                        Message assistant (Blocks (content r2))],
                round_count = 2, world = w3,
                trace =
                  [ApiCall ''Initial''
                     (loop_params self tls (build_system_content h) [Message user (Str query)])
                     (Inr r1),
                   ApiCall ''Round 2''
                     (loop_params self tls (build_system_content h)
                        [Message user (Str query), Message assistant (Blocks (content r1))])
                     (Inr r2),
                   ApiCall ''Final''
                     (base_params self
                        [Message user (Str query), Message assistant (Blocks (content r1)),
                         Message assistant (Blocks (content r2))] (build_system_content h))
                     rf]\<rparr>))"
proof (intro conjI allI impI)
  fix s :: "'a state" and w'
  assume "client self (loop_params self tls sys (msgs s)) (world s) = (Inr r1, w')"
  from bare_round [OF this assms]
  show "loop_body self tls (Some t) sys s =
      Continue (s\<lparr>msgs := msgs s @ [Message assistant (Blocks (content r1))],
                  round_count := Suc (round_count s), world := w',
                  trace := trace s @
                    [ApiCall (loop_round_info (round_count s))
                       (loop_params self tls sys (msgs s)) (Inr r1)]\<rparr>)" .
next
  fix w w1 w2 w3 :: 'a and r2 :: response and rf :: "exn + response"
  let ?sys = "build_system_content h"
  let ?m0 = "[Message user (Str query)]"
  let ?m1 = "[Message user (Str query), Message assistant (Blocks (content r1))]"
  let ?m2 = "[Message user (Str query), Message assistant (Blocks (content r1)),
             Message assistant (Blocks (content r2))]"
  assume h: "client self (loop_params self tls ?sys ?m0) w = (Inr r1, w1) \<and>
      client self (loop_params self tls ?sys ?m1) w1 = (Inr r2, w2) \<and>
      stop_reason r2 = ''tool_use'' \<and> tool_use_ids (content r2) = [] \<and>
      client self (base_params self ?m2 ?sys) w2 = (rf, w3)"
  let ?s0 = "initial_state query w :: 'a state"
  let ?e1 = "ApiCall ''Initial'' (loop_params self tls ?sys ?m0) (Inr r1)"
  let ?e2 = "ApiCall ''Round 2'' (loop_params self tls ?sys ?m1) (Inr r2)"
  let ?s1 = "\<lparr>msgs = ?m1, round_count = Suc 0, world = w1, trace = [?e1]\<rparr>"
  let ?s2 = "\<lparr>msgs = ?m2, round_count = Suc (Suc 0), world = w2, trace = [?e1, ?e2]\<rparr>"
  have s0: "msgs ?s0 = ?m0" "world ?s0 = w" "round_count ?s0 = 0"
    by (simp_all add: initial_state_def)
  have b1: "loop_body self tls (Some t) ?sys ?s0 = Continue ?s1"
    using bare_round [of self tls ?sys ?s0 r1 w1 t] h assms
    by (simp add: s0 loop_round_info_0) (simp add: initial_state_def)
  have b2: "loop_body self tls (Some t) ?sys ?s1 = Continue ?s2"
    using bare_round [of self tls ?sys ?s1 r2 w2 t] h
    by (simp add: loop_round_info_1)
  have l2: "loop self tls (Some t) ?sys ?s2 = (None, ?s2)"
    by (subst loop.simps) (simp add: max_rounds_def)
  have l1: "loop self tls (Some t) ?sys ?s1 = (None, ?s2)"
    by (subst loop.simps) (simp add: max_rounds_def b2 l2)
  have l0: "loop self tls (Some t) ?sys ?s0 = (None, ?s2)"
    by (subst loop.simps) (simp add: max_rounds_def s0 b1 l1)
  have "final_call self ?sys ?s2 =
      (final_result rf,
       \<lparr>msgs = ?m2, round_count = 2, world = w3,
        trace = [?e1, ?e2, ApiCall ''Final'' (base_params self ?m2 ?sys) rf]\<rparr>)"
    using h
    by (simp add: final_call_def call_anthropic_api_def final_result_def split: sum.splits)
  with l0 show "generate_response self query h tls (Some t) w =
      (final_result rf,
       \<lparr>msgs = ?m2, round_count = 2, world = w3,
        trace = [?e1, ?e2, ApiCall ''Final'' (base_params self ?m2 ?sys) rf]\<rparr>)"
    by (simp add: generate_response_def Let_def)
qed

theorem tool_round_without_tool_blocks_witness:
  "stop_reason bare_tool_use = ''tool_use'' \<and> tool_use_ids (content bare_tool_use) = [] \<and>
   fst (generate_response scripted_generator ''q'' None (Some catalog) (Some scripted_tools)
          script_bare_tool_use) = Inr ''Final answer'' \<and>
   msgs (snd (generate_response scripted_generator ''q'' None (Some catalog)
          (Some scripted_tools) script_bare_tool_use)) =
     [Message user (Str ''q''), Message assistant (Blocks [TextBlock ''Let me think.'']),
      Message assistant (Blocks [TextBlock ''Let me think.''])] \<and>
   round_count (snd (generate_response scripted_generator ''q'' None (Some catalog)
          (Some scripted_tools) script_bare_tool_use)) = 2"
proof -
  let ?sys = "build_system_content None"
  let ?m0 = "[Message user (Str ''q'')]"
  let ?m1 = "[Message user (Str ''q''), Message assistant (Blocks (content bare_tool_use))]"
  let ?m2 = "[Message user (Str ''q''), Message assistant (Blocks (content bare_tool_use)),
             Message assistant (Blocks (content bare_tool_use))]"
  have sr: "stop_reason bare_tool_use = ''tool_use''"
    and ids: "tool_use_ids (content bare_tool_use) = []"
    by (simp_all add: bare_tool_use_def)
  have c1: "client scripted_generator
      (loop_params scripted_generator (Some catalog) ?sys ?m0) script_bare_tool_use =
      (Inr bare_tool_use, ([Inr bare_tool_use, Inr text_response], []))"
    by (simp add: scripted_generator_def scripted_client_def script_bare_tool_use_def)
  have c2: "client scripted_generator
      (loop_params scripted_generator (Some catalog) ?sys ?m1)
      ([Inr bare_tool_use, Inr text_response], []) =
      (Inr bare_tool_use, ([Inr text_response], []))"
    by (simp add: scripted_generator_def scripted_client_def)
  have c3: "client scripted_generator (base_params scripted_generator ?m2 ?sys)
      ([Inr text_response], []) = (Inr text_response, ([], []))"
    by (simp add: scripted_generator_def scripted_client_def)
  from tool_round_without_tool_blocks [OF sr ids, of scripted_generator "Some catalog" _
      scripted_tools None "''q''"] c1 c2 c3 sr ids
  have "generate_response scripted_generator ''q'' None (Some catalog) (Some scripted_tools)
      script_bare_tool_use =
      (final_result (Inr text_response),
       \<lparr>msgs = ?m2, round_count = 2, world = ([], []),
        trace =
          [ApiCall ''Initial'' (loop_params scripted_generator (Some catalog) ?sys ?m0)
             (Inr bare_tool_use),
           ApiCall ''Round 2'' (loop_params scripted_generator (Some catalog) ?sys ?m1)
             (Inr bare_tool_use),
           ApiCall ''Final'' (base_params scripted_generator ?m2 ?sys)
             (Inr text_response)]\<rparr>)"
    by blast
  then show ?thesis
    using sr ids by (simp add: final_result_def text_response_def bare_tool_use_def)
qed

end
